theory Spec2Isabelle
  imports Main "HOL-Library.AList" "HOL-Library.Sublist"
begin

section \<open>Go strings (package strings, strconv)\<close>

text \<open>
  A Go string is a sequence of bytes; \<open>string\<close> (a list of \<open>char\<close>) is that sequence and
  \<open>length\<close> is Go's \<open>len\<close>.
\<close>

text \<open>\<open>strings.Split(s, sep)\<close> for a one-byte separator: one more part than separators.\<close>

fun Split :: "string \<Rightarrow> char \<Rightarrow> string list" where
  "Split [] sep = [[]]"
| "Split (x # xs) sep =
     (if x = sep then [] # Split xs sep
      else (case Split xs sep of [] \<Rightarrow> [[x]] | p # ps \<Rightarrow> (x # p) # ps))"

text \<open>\<open>strings.SplitN(s, sep, 2)\<close> for a one-byte separator: cut at the first separator only.\<close>

fun SplitN2 :: "string \<Rightarrow> char \<Rightarrow> string list" where
  "SplitN2 [] sep = [[]]"
| "SplitN2 (x # xs) sep =
     (if x = sep then [[], xs]
      else (case SplitN2 xs sep of [] \<Rightarrow> [[x]] | p # ps \<Rightarrow> (x # p) # ps))"

text \<open>\<open>strings.TrimPrefix(s, prefix)\<close>.\<close>

definition TrimPrefix :: "string \<Rightarrow> string \<Rightarrow> string" where
  "TrimPrefix s pre = (if prefix pre s then drop (length pre) s else s)"

text \<open>
  \<open>strings.ToLower\<close> on the ASCII letters. The only use compares the result with
  \<open>''bearer''\<close>; no character outside ASCII lowers to one of its letters, so the comparison
  is the one Go makes.
\<close>

definition lowerByte :: "char \<Rightarrow> char" where
  "lowerByte c = (let n = (of_char c :: nat) in if 65 \<le> n \<and> n \<le> 90 then char_of (n + 32) else c)"

definition upperByte :: "char \<Rightarrow> char" where
  "upperByte c = (let n = (of_char c :: nat) in if 97 \<le> n \<and> n \<le> 122 then char_of (n - 32) else c)"

definition ToLower :: "string \<Rightarrow> string" where
  "ToLower s = map lowerByte s"

text \<open>\<open>strings.Join(parts, sep)\<close>.\<close>

fun Join :: "string list \<Rightarrow> string \<Rightarrow> string" where
  "Join [] sep = []"
| "Join [p] sep = p"
| "Join (p # q # ps) sep = p @ sep @ Join (q # ps) sep"

text \<open>
  Go's \<open>int\<close> and \<open>int64\<close> are 64-bit two's complement; \<open>wrap64\<close> is the value a result
  has after wrap-around.
\<close>

definition wrap64 :: "int \<Rightarrow> int" where
  "wrap64 x = (x + 2 ^ 63) mod 2 ^ 64 - 2 ^ 63"

definition isDigit :: "char \<Rightarrow> bool" where
  "isDigit c = (c \<in> set ''0123456789'')"

definition digitVal :: "char \<Rightarrow> nat" where
  "digitVal c = of_char c - 48"

definition digitsVal :: "string \<Rightarrow> nat" where
  "digitsVal ds = foldl (\<lambda>n c. 10 * n + digitVal c) 0 ds"

text \<open>
  \<open>strconv.Atoi\<close>: an optional sign and at least one decimal digit, the value within
  the 64-bit range; anything else is an error (\<open>None\<close>).
\<close>

definition Atoi :: "string \<Rightarrow> int option" where
  "Atoi s =
     (let (neg, ds) =
        (case s of
           [] \<Rightarrow> (False, [])
         | c # r \<Rightarrow> if c = CHR ''-'' then (True, r) else if c = CHR ''+'' then (False, r) else (False, s))
      in if ds = [] \<or> \<not> list_all isDigit ds then None
         else let v = (if neg then - int (digitsVal ds) else int (digitsVal ds))
              in if - (2 ^ 63) \<le> v \<and> v < 2 ^ 63 then Some v else None)"

text \<open>\<open>strconv.Itoa\<close> and \<open>strconv.FormatUint(n, 10)\<close>.\<close>

definition digitChar :: "nat \<Rightarrow> char" where
  "digitChar d = ''0123456789'' ! (d mod 10)"

fun natToString :: "nat \<Rightarrow> string" where
  "natToString n = (if n < 10 then [digitChar n] else natToString (n div 10) @ [digitChar (n mod 10)])"

declare natToString.simps [simp del]

definition intToString :: "int \<Rightarrow> string" where
  "intToString n = (if n < 0 then CHR ''-'' # natToString (nat (- n)) else natToString (nat n))"

definition uintToString :: "nat \<Rightarrow> string" where
  "uintToString n = natToString n"

section \<open>Configuration (internal/config/config.go)\<close>

text \<open>
  The process environment is a partial map from names to values; \<open>os.Getenv\<close> gives the
  empty string for a name that is not set.
\<close>

type_synonym environ = "string \<rightharpoonup> string"

definition Getenv :: "environ \<Rightarrow> string \<Rightarrow> string" where
  "Getenv env key = (case env key of None \<Rightarrow> [] | Some v \<Rightarrow> v)"

text \<open>\<open>time.Duration\<close> is a count of nanoseconds.\<close>

type_synonym Duration = int

definition Second :: Duration where
  "Second = 1000000000"

definition Minute :: Duration where
  "Minute = 60 * Second"

definition Hour :: Duration where
  "Hour = 60 * Minute"

record JWTConfig =
  Secret :: string
  ExpiresIn :: Duration
  RefreshExpiresIn :: Duration

record CORSConfig =
  AllowedOrigins :: "string list"
  AllowedMethods :: "string list"
  AllowedHeaders :: "string list"

record RateLimitConfig =
  Requests :: int
  Window :: Duration

record RedisConfig =
  Host :: string
  Port :: int
  Password :: string
  DB :: int

record ServicesConfig =
  AuthURL :: string
  CaptchaURL :: string

record Config =
  ListenPort :: int
  Environment :: string
  JWT :: JWTConfig
  CORS :: CORSConfig
  RateLimit :: RateLimitConfig
  Redis :: RedisConfig
  Services :: ServicesConfig
  LogLevel :: string

definition getEnv :: "environ \<Rightarrow> string \<Rightarrow> string \<Rightarrow> string" where
  "getEnv env key defaultValue =
     (let v = Getenv env key in if v \<noteq> [] then v else defaultValue)"

definition getEnvInt :: "environ \<Rightarrow> string \<Rightarrow> int \<Rightarrow> int" where
  "getEnvInt env key defaultValue =
     (let v = Getenv env key in
      if v \<noteq> [] then (case Atoi v of Some intVal \<Rightarrow> intVal | None \<Rightarrow> defaultValue)
      else defaultValue)"

definition getEnvSlice :: "environ \<Rightarrow> string \<Rightarrow> string list \<Rightarrow> string list" where
  "getEnvSlice env key defaultValue =
     (let v = Getenv env key in if v \<noteq> [] then Split v (CHR '','') else defaultValue)"

text \<open>
  \<open>time.ParseDuration\<close> belongs to the Go library; the loader takes it as the parameter
  \<open>parseDuration\<close> (\<open>None\<close> when it returns an error).
\<close>

definition getEnvDuration ::
  "(string \<Rightarrow> Duration option) \<Rightarrow> environ \<Rightarrow> string \<Rightarrow> Duration \<Rightarrow> Duration" where
  "getEnvDuration parseDuration env key defaultValue =
     (let v = Getenv env key in
      if v \<noteq> [] then (case parseDuration v of Some d \<Rightarrow> d | None \<Rightarrow> defaultValue)
      else defaultValue)"

definition defaultSecret :: string where
  "defaultSecret = ''your-secret-key-min-32-characters-long''"

definition Load :: "(string \<Rightarrow> Duration option) \<Rightarrow> environ \<Rightarrow> string + Config" where
  "Load parseDuration env =
     (let cfg =
        \<lparr> ListenPort = getEnvInt env ''GATEWAY_PORT'' 8080,
          Environment = getEnv env ''GATEWAY_ENV'' ''development'',
          JWT = \<lparr> Secret = getEnv env ''JWT_SECRET'' defaultSecret,
                  ExpiresIn = getEnvDuration parseDuration env ''JWT_EXPIRES_IN'' (24 * Hour),
                  RefreshExpiresIn =
                    getEnvDuration parseDuration env ''JWT_REFRESH_EXPIRES_IN'' (7 * 24 * Hour) \<rparr>,
          CORS = \<lparr> AllowedOrigins = getEnvSlice env ''CORS_ORIGINS'' [''http://localhost:3000''],
                   AllowedMethods = [''GET'', ''POST'', ''PUT'', ''DELETE'', ''OPTIONS'', ''PATCH''],
                   AllowedHeaders =
                     [''Accept'', ''Authorization'', ''Content-Type'', ''X-API-Key'',
                      ''X-Request-ID'', ''X-Requested-With''] \<rparr>,
          RateLimit = \<lparr> Requests = getEnvInt env ''RATE_LIMIT_REQUESTS'' 100,
                        Window = wrap64 (getEnvInt env ''RATE_LIMIT_WINDOW_SECONDS'' 60 * Second) \<rparr>,
          Redis = \<lparr> Host = getEnv env ''REDIS_HOST'' ''localhost'',
                    Port = getEnvInt env ''REDIS_PORT'' 6379,
                    Password = getEnv env ''REDIS_PASSWORD'' [],
                    DB = getEnvInt env ''REDIS_DB'' 0 \<rparr>,
          Services = \<lparr> AuthURL = getEnv env ''AUTH_SERVICE_URL'' ''http://localhost:8081'',
                       CaptchaURL = getEnv env ''CAPTCHA_SERVICE_URL'' ''http://localhost:8082'' \<rparr>,
          LogLevel = getEnv env ''LOG_LEVEL'' ''info'' \<rparr>
      in if Secret (JWT cfg) = [] \<or> length (Secret (JWT cfg)) < 32
         then Inl ''JWT_SECRET must be at least 32 characters''
         else Inr cfg)"

section \<open>HTTP headers (net/http, net/textproto)\<close>

text \<open>
  \<open>http.Header\<close> is a map from canonical header names to lists of values, here an
  association list. \<open>Get\<close>, \<open>Set\<close>, \<open>Add\<close> and \<open>Del\<close> canonicalise the name they are given.
  The token bytes of a header name are the letters, the digits and
  \<open>! # $ % & ' * + - . ^ _ ` | ~\<close>, given here by their codes.
\<close>

type_synonym header = "(string \<times> string list) list"

definition validHeaderFieldByte :: "char \<Rightarrow> bool" where
  "validHeaderFieldByte c =
     (let n = (of_char c :: nat)
      in (48 \<le> n \<and> n \<le> 57) \<or> (65 \<le> n \<and> n \<le> 90) \<or> (97 \<le> n \<and> n \<le> 122)
         \<or> n \<in> set [33, 35, 36, 37, 38, 39, 42, 43, 45, 46, 94, 95, 96, 124, 126])"

text \<open>Upper-case the first letter and every letter after a hyphen, lower-case the others.\<close>

fun canonLetters :: "bool \<Rightarrow> string \<Rightarrow> string" where
  "canonLetters upper [] = []"
| "canonLetters upper (c # cs) =
     (let d = (if upper then upperByte c else lowerByte c)
      in d # canonLetters (d = CHR ''-'') cs)"

text \<open>
  \<open>textproto.CanonicalMIMEHeaderKey\<close>: a name with a byte that is not a token byte is
  returned unchanged.
\<close>

definition CanonicalMIMEHeaderKey :: "string \<Rightarrow> string" where
  "CanonicalMIMEHeaderKey s = (if list_all validHeaderFieldByte s then canonLetters True s else s)"

definition Header_Values :: "header \<Rightarrow> string \<Rightarrow> string list" where
  "Header_Values h key = (case map_of h (CanonicalMIMEHeaderKey key) of None \<Rightarrow> [] | Some vs \<Rightarrow> vs)"

definition Header_Get :: "header \<Rightarrow> string \<Rightarrow> string" where
  "Header_Get h key = (case Header_Values h key of [] \<Rightarrow> [] | v # vs \<Rightarrow> v)"

definition Header_Set :: "header \<Rightarrow> string \<Rightarrow> string \<Rightarrow> header" where
  "Header_Set h key v = AList.update (CanonicalMIMEHeaderKey key) [v] h"

definition Header_Add :: "header \<Rightarrow> string \<Rightarrow> string \<Rightarrow> header" where
  "Header_Add h key v = AList.update (CanonicalMIMEHeaderKey key) (Header_Values h key @ [v]) h"

definition Header_Del :: "header \<Rightarrow> string \<Rightarrow> header" where
  "Header_Del h key = AList.delete (CanonicalMIMEHeaderKey key) h"

text \<open>A header is present when the map has an entry for its canonical name.\<close>

definition Header_Has :: "header \<Rightarrow> string \<Rightarrow> bool" where
  "Header_Has h key = (map_of h (CanonicalMIMEHeaderKey key) \<noteq> None)"

text \<open>
  A header map names \<open>key\<close> when the name of one of its entries canonicalises to the
  canonical form of \<open>key\<close>. The maps net/http parses have canonical names, and there
  this is \<open>Header_Has\<close>.
\<close>

definition Header_Mentions :: "header \<Rightarrow> string \<Rightarrow> bool" where
  "Header_Mentions h key =
     list_ex (\<lambda>(k, vs). CanonicalMIMEHeaderKey k = CanonicalMIMEHeaderKey key) h"

section \<open>Requests, responses and the per-request context (gin)\<close>

record URL =
  Scheme :: string
  URLHost :: string
  Path :: string
  RawQuery :: string

text \<open>
  A body is read in chunks, one per \<open>Read\<close> call, and ends with EOF or with an error.
  \<open>io.ReadAll\<close> keeps every chunk it has read in one buffer and returns the buffer and
  whether the reader failed.
\<close>

record reader =
  Chunks :: "string list"
  Fails :: bool

definition ReadAll :: "reader \<Rightarrow> string \<times> bool" where
  "ReadAll r = (concat (Chunks r), Fails r)"

text \<open>
  The inbound request. \<open>ClientIP\<close> is what gin's \<open>c.ClientIP()\<close> returns for it; \<open>Body\<close> is
  \<open>None\<close> for a nil body.
\<close>

record Request =
  Method :: string
  ReqURL :: URL
  Header :: header
  Body :: "reader option"
  ClientIP :: string

text \<open>
  A response body: nothing, a JSON object (\<open>gin.H\<close> with string members, keys in the
  sorted order of the encoder) or raw bytes.
\<close>

datatype body = NoBody | JSON "(string \<times> string) list" | Data string

record ResponseWriter =
  Status :: nat
  RespHeader :: header
  RespBody :: body

text \<open>Values stored under gin's context keys (\<open>interface{}\<close>): strings and \<open>uint64\<close>.\<close>

datatype any = AString string | AUint64 nat

text \<open>The request the forwarder hands to \<open>httpClient.Do\<close>, and the upstream's answer.\<close>

record ProxyReq =
  PMethod :: string
  PURL :: URL
  PHeader :: header
  PBody :: string

record Response =
  StatusCode :: nat
  RHeader :: header
  RBody :: reader

datatype level = Debug | Info | Warn | Error

text \<open>
  The state a handler works on: gin's context of the request (\<open>Request\<close>, \<open>Writer\<close>, \<open>Keys\<close>,
  \<open>Aborted\<close>), the map of the in-memory rate limiter, which its closure shares between
  requests (client address to count and last-seen time), and the effects so far: the
  requests handed to \<open>httpClient.Do\<close>, the logger calls (level and message), and how
  many bytes of inbound body the handler holds in memory. \<open>Panicked\<close> is set when a
  handler panics: the handlers above it do not resume, up to \<open>Recovery\<close>.
\<close>

record Context =
  Request :: Request
  Writer :: ResponseWriter
  Keys :: "(string \<times> any) list"
  Aborted :: bool
  Clients :: "(string \<times> int \<times> int) list"
  Upstream :: "ProxyReq list"
  Logs :: "(level \<times> string) list"
  Buffered :: nat
  Panicked :: bool

definition GetHeader :: "Context \<Rightarrow> string \<Rightarrow> string" where
  "GetHeader c key = Header_Get (Header (Request c)) key"

text \<open>\<open>c.Header(key, value)\<close>: an empty value deletes the response header.\<close>

definition SetRespHeader :: "string \<Rightarrow> string \<Rightarrow> Context \<Rightarrow> Context" where
  "SetRespHeader key v c =
     c\<lparr>Writer := (Writer c)\<lparr>RespHeader :=
        (if v = [] then Header_Del (RespHeader (Writer c)) key
         else Header_Set (RespHeader (Writer c)) key v)\<rparr>\<rparr>"

definition SetReqHeader :: "string \<Rightarrow> string \<Rightarrow> Context \<Rightarrow> Context" where
  "SetReqHeader key v c = c\<lparr>Request := (Request c)\<lparr>Header := Header_Set (Header (Request c)) key v\<rparr>\<rparr>"

definition SetKey :: "string \<Rightarrow> any \<Rightarrow> Context \<Rightarrow> Context" where
  "SetKey key v c = c\<lparr>Keys := AList.update key v (Keys c)\<rparr>"

definition GetKey :: "Context \<Rightarrow> string \<Rightarrow> any option" where
  "GetKey c key = map_of (Keys c) key"

definition GetString :: "Context \<Rightarrow> string \<Rightarrow> string" where
  "GetString c key = (case map_of (Keys c) key of Some (AString s) \<Rightarrow> s | _ \<Rightarrow> [])"

definition Log :: "level \<Rightarrow> string \<Rightarrow> Context \<Rightarrow> Context" where
  "Log l msg c = c\<lparr>Logs := Logs c @ [(l, msg)]\<rparr>"

text \<open>gin writes no body for the statuses 1xx, 204 and 304.\<close>

definition bodyAllowedForStatus :: "nat \<Rightarrow> bool" where
  "bodyAllowedForStatus status = (\<not> (100 \<le> status \<and> status \<le> 199) \<and> status \<noteq> 204 \<and> status \<noteq> 304)"

text \<open>The renderers set \<open>Content-Type\<close> only when the response has none yet.\<close>

definition writeContentType :: "string \<Rightarrow> header \<Rightarrow> header" where
  "writeContentType v h =
     (case map_of h ''Content-Type'' of
        Some (x # xs) \<Rightarrow> h
      | _ \<Rightarrow> AList.update ''Content-Type'' [v] h)"

definition Render :: "nat \<Rightarrow> string \<Rightarrow> body \<Rightarrow> Context \<Rightarrow> Context" where
  "Render status contentType b c =
     c\<lparr>Writer := \<lparr> Status = status,
                    RespHeader = writeContentType contentType (RespHeader (Writer c)),
                    RespBody = (if bodyAllowedForStatus status then b else RespBody (Writer c)) \<rparr>\<rparr>"

definition RespondJSON :: "nat \<Rightarrow> (string \<times> string) list \<Rightarrow> Context \<Rightarrow> Context" where
  "RespondJSON status obj c = Render status ''application/json; charset=utf-8'' (JSON obj) c"

definition RespondData :: "nat \<Rightarrow> string \<Rightarrow> string \<Rightarrow> Context \<Rightarrow> Context" where
  "RespondData status contentType bytes c = Render status contentType (Data bytes) c"

definition Abort :: "Context \<Rightarrow> Context" where
  "Abort c = c\<lparr>Aborted := True\<rparr>"

definition AbortWithStatus :: "nat \<Rightarrow> Context \<Rightarrow> Context" where
  "AbortWithStatus status c = Abort (c\<lparr>Writer := (Writer c)\<lparr>Status := status\<rparr>\<rparr>)"

definition AbortWithStatusJSON :: "nat \<Rightarrow> (string \<times> string) list \<Rightarrow> Context \<Rightarrow> Context" where
  "AbortWithStatusJSON status obj c = RespondJSON status obj (Abort c)"

section \<open>Middleware (internal/middleware)\<close>

text \<open>
  A middleware gets the rest of the chain as \<open>next\<close>: calling \<open>c.Next()\<close> is applying it,
  aborting and returning is not applying it. Every middleware below ends in one of the
  two.
\<close>

type_synonym handler = "Context \<Rightarrow> Context"

text \<open>\<open>gin.Recovery()\<close>: a panic below it becomes the status 500.\<close>

definition Recovery :: "handler \<Rightarrow> handler" where
  "Recovery next c =
     (let c = next c
      in if Panicked c then AbortWithStatus 500 (c\<lparr>Panicked := False\<rparr>) else c)"

definition Logger :: "handler \<Rightarrow> handler" where
  "Logger next c = (let c = next c in if Panicked c then c else Log Info ''HTTP Request'' c)"

text \<open>\<open>fresh\<close> is the string \<open>uuid.New().String()\<close> returns for this request.\<close>

definition RequestID :: "string \<Rightarrow> handler \<Rightarrow> handler" where
  "RequestID fresh next c =
     (let requestID = GetHeader c ''X-Request-ID'';
          requestID = (if requestID = [] then fresh else requestID);
          c = SetKey ''request_id'' (AString requestID) c;
          c = SetRespHeader ''X-Request-ID'' requestID c
      in next c)"

definition CORSHandler :: "CORSConfig \<Rightarrow> handler \<Rightarrow> handler" where
  "CORSHandler cfg next c =
     (let origin = GetHeader c ''Origin'';
          allowed = list_ex (\<lambda>allowedOrigin. allowedOrigin = ''*'' \<or> allowedOrigin = origin)
                      (AllowedOrigins cfg);
          c = (if allowed \<and> origin \<noteq> [] then SetRespHeader ''Access-Control-Allow-Origin'' origin c
               else c);
          c = SetRespHeader ''Access-Control-Allow-Methods'' (Join (AllowedMethods cfg) '', '') c;
          c = SetRespHeader ''Access-Control-Allow-Headers'' (Join (AllowedHeaders cfg) '', '') c;
          c = SetRespHeader ''Access-Control-Allow-Credentials'' ''true'' c;
          c = SetRespHeader ''Access-Control-Max-Age'' ''86400'' c
      in if Method (Request c) = ''OPTIONS'' then AbortWithStatus 204 c else next c)"

text \<open>\<open>mode\<close> is what \<open>gin.Mode()\<close> returns; \<open>gin.ReleaseMode\<close> is \<open>''release''\<close>.\<close>

definition ReleaseMode :: string where
  "ReleaseMode = ''release''"

definition SecurityHeaders :: "string \<Rightarrow> handler \<Rightarrow> handler" where
  "SecurityHeaders mode next c =
     (let c = SetRespHeader ''X-Content-Type-Options'' ''nosniff'' c;
          c = SetRespHeader ''X-Frame-Options'' ''DENY'' c;
          c = SetRespHeader ''X-XSS-Protection'' ''1; mode=block'' c;
          c = SetRespHeader ''Referrer-Policy'' ''strict-origin-when-cross-origin'' c;
          c = (if mode = ReleaseMode
               then SetRespHeader ''Strict-Transport-Security'' ''max-age=31536000; includeSubDomains'' c
               else c)
      in next c)"

record JWTClaims =
  UserID :: nat
  Email :: string
  Role :: string

datatype TokenError = ErrInvalidToken

text \<open>
  \<open>validateJWT\<close> as the gateway has it: the token is split at the dots, three parts are
  required, and the claims returned are the zero claims. The secret is not used.
\<close>

definition validateJWT :: "string \<Rightarrow> string \<Rightarrow> TokenError + JWTClaims" where
  "validateJWT tokenString secret =
     (let parts = Split tokenString (CHR ''.'')
      in if length parts \<noteq> 3 then Inl ErrInvalidToken
         else Inr \<lparr> UserID = 0, Email = [], Role = [] \<rparr>)"

definition unauthorized :: "string \<Rightarrow> (string \<times> string) list" where
  "unauthorized message = [(''error'', ''unauthorized''), (''message'', message)]"

definition AuthRequired :: "string \<Rightarrow> handler \<Rightarrow> handler" where
  "AuthRequired secret next c =
     (let authHeader = GetHeader c ''Authorization''
      in if authHeader = []
         then AbortWithStatusJSON 401 (unauthorized ''Authorization header is required'') c
         else
           let parts = SplitN2 authHeader (CHR '' '')
           in if length parts \<noteq> 2 \<or> ToLower (parts ! 0) \<noteq> ''bearer''
              then AbortWithStatusJSON 401 (unauthorized ''Invalid authorization header format'') c
              else
                let token = parts ! 1
                in case validateJWT token secret of
                     Inl err \<Rightarrow>
                       AbortWithStatusJSON 401 (unauthorized ''Invalid or expired token'') c
                   | Inr claims \<Rightarrow>
                       let c = SetKey ''user_id'' (AUint64 (UserID claims)) c;
                           c = SetKey ''user_email'' (AString (Email claims)) c;
                           c = SetKey ''user_role'' (AString (Role claims)) c;
                           c = SetReqHeader ''X-User-ID'' (uintToString (UserID claims)) c;
                           c = SetReqHeader ''X-User-Email'' (Email claims) c;
                           c = SetReqHeader ''X-User-Role'' (Role claims) c
                       in next c)"

text \<open>
  \<open>sha256hex\<close> is \<open>hex.EncodeToString\<close> of \<open>sha256.Sum256\<close>, a function of the Go
  library.
\<close>

definition APIKeyOrJWTAuth :: "(string \<Rightarrow> string) \<Rightarrow> string \<Rightarrow> handler \<Rightarrow> handler" where
  "APIKeyOrJWTAuth sha256hex jwtSecret next c =
     (let apiKey = GetHeader c ''X-API-Key''
      in if apiKey \<noteq> []
         then
           let keyHash = sha256hex apiKey;
               c = SetKey ''api_key_hash'' (AString keyHash) c;
               c = SetKey ''auth_type'' (AString ''api_key'') c;
               c = SetReqHeader ''X-API-Key-Hash'' keyHash c
           in next c
         else
           let authHeader = GetHeader c ''Authorization'';
               parts = SplitN2 authHeader (CHR '' '')
           in if authHeader \<noteq> [] \<and> length parts = 2 \<and> ToLower (parts ! 0) = ''bearer''
              then
                (case validateJWT (parts ! 1) jwtSecret of
                   Inr claims \<Rightarrow>
                     let c = SetKey ''user_id'' (AUint64 (UserID claims)) c;
                         c = SetKey ''user_email'' (AString (Email claims)) c;
                         c = SetKey ''user_role'' (AString (Role claims)) c;
                         c = SetKey ''auth_type'' (AString ''jwt'') c;
                         c = SetReqHeader ''X-User-ID'' (uintToString (UserID claims)) c;
                         c = SetReqHeader ''X-User-Email'' (Email claims) c;
                         c = SetReqHeader ''X-User-Role'' (Role claims) c
                     in next c
                 | Inl err \<Rightarrow>
                     AbortWithStatusJSON 401 (unauthorized ''API key or valid JWT token required'') c)
              else AbortWithStatusJSON 401 (unauthorized ''API key or valid JWT token required'') c)"

subsection \<open>Rate limiting\<close>

definition rateLimitExceeded :: "(string \<times> string) list" where
  "rateLimitExceeded =
     [(''error'', ''rate_limit_exceeded''),
      (''message'', ''Too many requests, please try again later'')]"

text \<open>
  \<open>window.Seconds()\<close> converted to \<open>int\<close>: the whole seconds of the duration, truncated
  towards zero (exact when the window is a whole number of seconds, as \<open>Load\<close> makes it
  unless the multiplication wrapped).
\<close>

definition wholeSeconds :: "Duration \<Rightarrow> int" where
  "wholeSeconds d = (if d < 0 then - ((- d) div Second) else d div Second)"

text \<open>
  \<open>exec key window\<close> is the outcome of the pipelined round trip \<open>INCR key; EXPIRE key
  window\<close>: \<open>Inl\<close> the error of \<open>pipe.Exec\<close>, or \<open>Inr\<close> the count \<open>incr.Val()\<close>.
\<close>

definition RateLimiterRedis ::
  "(string \<Rightarrow> Duration \<Rightarrow> string + int) \<Rightarrow> int \<Rightarrow> Duration \<Rightarrow> handler \<Rightarrow> handler" where
  "RateLimiterRedis exec maxRequests window next c =
     (let key = ''rate_limit:'' @ ClientIP (Request c)
      in case exec key window of
           Inl err \<Rightarrow> next c
         | Inr count \<Rightarrow>
             let remaining = wrap64 (maxRequests - count);
                 remaining = (if remaining < 0 then 0 else remaining);
                 c = SetRespHeader ''X-RateLimit-Limit'' (intToString maxRequests) c;
                 c = SetRespHeader ''X-RateLimit-Remaining'' (intToString remaining) c;
                 c = SetRespHeader ''X-RateLimit-Reset'' (intToString (wholeSeconds window)) c
             in if count > maxRequests then AbortWithStatusJSON 429 rateLimitExceeded c
                else next c)"

text \<open>
  The in-memory limiter. \<open>now\<close> is \<open>time.Now()\<close> in nanoseconds; the window is the
  constant \<open>time.Minute\<close>. The body between \<open>mu.Lock()\<close> and \<open>mu.Unlock()\<close> is one step.
\<close>

definition RateLimiterMemory :: "int \<Rightarrow> int \<Rightarrow> handler \<Rightarrow> handler" where
  "RateLimiterMemory maxRequests now next c =
     (let ip = ClientIP (Request c);
          window = Minute
      in case map_of (Clients c) ip of
           Some (count, lastSeen) \<Rightarrow>
             let cl = (if now - lastSeen > window then (1, now) else (wrap64 (count + 1), lastSeen));
                 c = c\<lparr>Clients := AList.update ip cl (Clients c)\<rparr>;
                 remaining = wrap64 (maxRequests - fst cl);
                 remaining = (if remaining < 0 then 0 else remaining);
                 c = SetRespHeader ''X-RateLimit-Limit'' (intToString maxRequests) c;
                 c = SetRespHeader ''X-RateLimit-Remaining'' (intToString remaining) c
             in if fst cl > maxRequests then AbortWithStatusJSON 429 rateLimitExceeded c
                else next c
         | None \<Rightarrow>
             let c = c\<lparr>Clients := AList.update ip (1, now) (Clients c)\<rparr>;
                 c = SetRespHeader ''X-RateLimit-Limit'' (intToString maxRequests) c;
                 c = SetRespHeader ''X-RateLimit-Remaining'' (intToString (wrap64 (maxRequests - 1))) c
             in next c)"

text \<open>One pass of the cleanup goroutine at time \<open>now\<close>.\<close>

definition cleanup :: "int \<Rightarrow> (string \<times> int \<times> int) list \<Rightarrow> (string \<times> int \<times> int) list" where
  "cleanup now clients = filter (\<lambda>(ip, count, lastSeen). \<not> (now - lastSeen > Minute * 2)) clients"

section \<open>The forwarder (internal/proxy)\<close>

text \<open>
  What the forwarder calls outside the repository: \<open>url.Parse\<close> (\<open>None\<close> for an error),
  whether \<open>http.NewRequestWithContext\<close> fails for a method and URL, and
  \<open>httpClient.Do\<close> (\<open>None\<close> for a transport error or timeout, else the upstream's
  response).
\<close>

record Net =
  urlParse :: "string \<Rightarrow> URL option"
  newRequestFails :: "string \<Rightarrow> URL \<Rightarrow> bool"
  DoRequest :: "ProxyReq \<Rightarrow> Response option"

definition proxyError :: "string \<Rightarrow> (string \<times> string) list" where
  "proxyError message = [(''error'', ''proxy_error''), (''message'', message)]"

text \<open>The loop over the inbound headers: every value of every name is added.\<close>

definition copyHeaders :: "header \<Rightarrow> header \<Rightarrow> header" where
  "copyHeaders src dst =
     fold (\<lambda>(key, vals) h. fold (\<lambda>v h. Header_Add h key v) vals h) src dst"

text \<open>The loop over the upstream's response headers, through \<open>c.Header\<close>.\<close>

definition copyResponseHeaders :: "header \<Rightarrow> Context \<Rightarrow> Context" where
  "copyResponseHeaders src c =
     fold (\<lambda>(key, vals) c. fold (\<lambda>v c. SetRespHeader key v c) vals c) src c"

text \<open>\<open>fmt.Sprintf("%v", x)\<close> for the values the context holds.\<close>

fun formatAny :: "any \<Rightarrow> string" where
  "formatAny (AString s) = s"
| "formatAny (AUint64 n) = natToString n"

text \<open>
  \<open>proxyReq.Header.Set(name, x.(string))\<close> when the key exists: the type assertion
  panics on a value that is not a string (\<open>None\<close>).
\<close>

definition forwardString :: "Context \<Rightarrow> string \<Rightarrow> string \<Rightarrow> header \<Rightarrow> header option" where
  "forwardString c key name h =
     (case GetKey c key of
        None \<Rightarrow> Some h
      | Some (AString s) \<Rightarrow> Some (Header_Set h name s)
      | Some (AUint64 n) \<Rightarrow> None)"

text \<open>The headers of the upstream request; \<open>None\<close> when a type assertion panics.\<close>

definition proxyHeaders :: "Context \<Rightarrow> header option" where
  "proxyHeaders c =
     (let h = copyHeaders (Header (Request c)) [];
          clientIP = ClientIP (Request c);
          h = (if clientIP \<noteq> []
               then Header_Set (Header_Set h ''X-Forwarded-For'' clientIP) ''X-Real-IP'' clientIP
               else h);
          requestID = GetString c ''request_id'';
          h = (if requestID \<noteq> [] then Header_Set h ''X-Request-ID'' requestID else h);
          h = (case GetKey c ''user_id'' of
                 Some userID \<Rightarrow> Header_Set h ''X-User-ID'' (formatAny userID)
               | None \<Rightarrow> h)
      in case forwardString c ''user_email'' ''X-User-Email'' h of
           None \<Rightarrow> None
         | Some h \<Rightarrow>
             (case forwardString c ''user_role'' ''X-User-Role'' h of
                None \<Rightarrow> None
              | Some h \<Rightarrow> forwardString c ''api_key_hash'' ''X-API-Key-Hash'' h))"

text \<open>
  \<open>ProxyRequest\<close> for the proxy with base URL \<open>target\<close>. The whole inbound body is read
  with \<open>io.ReadAll\<close> before the upstream request is made; \<open>Buffered\<close> records its size.
\<close>

definition ProxyRequest :: "Net \<Rightarrow> string \<Rightarrow> string \<Rightarrow> handler" where
  "ProxyRequest net target path c =
     (case urlParse net target of
        None \<Rightarrow>
          RespondJSON 500 (proxyError ''Failed to proxy request'')
            (Log Error ''Failed to parse target URL'' c)
      | Some targetURL \<Rightarrow>
          let targetURL = targetURL\<lparr>Path := ''/api/v1'' @ path,
                                     RawQuery := RawQuery (ReqURL (Request c))\<rparr>;
              (bodyBytes, err) = (case Body (Request c) of
                                    None \<Rightarrow> ([], False)
                                  | Some r \<Rightarrow> ReadAll r);
              c = c\<lparr>Buffered := length bodyBytes\<rparr>
          in if err
             then RespondJSON 400
                    [(''error'', ''bad_request''), (''message'', ''Failed to read request body'')]
                    (Log Error ''Failed to read request body'' c)
             else if newRequestFails net (Method (Request c)) targetURL
             then RespondJSON 500 (proxyError ''Failed to create proxy request'')
                    (Log Error ''Failed to create proxy request'' c)
             else
               (case proxyHeaders c of
                  None \<Rightarrow> c\<lparr>Panicked := True\<rparr>
                | Some h \<Rightarrow>
                    let proxyReq = \<lparr> PMethod = Method (Request c), PURL = targetURL,
                                      PHeader = h, PBody = bodyBytes \<rparr>;
                        c = Log Debug ''Proxying request'' c;
                        c = c\<lparr>Upstream := Upstream c @ [proxyReq]\<rparr>
                    in case DoRequest net proxyReq of
                         None \<Rightarrow>
                           RespondJSON 502
                             [(''error'', ''service_unavailable''),
                              (''message'', ''Backend service is unavailable'')]
                             (Log Error ''Failed to proxy request'' c)
                       | Some resp \<Rightarrow>
                           let (respBody, err) = ReadAll (RBody resp)
                           in if err
                              then RespondJSON 500 (proxyError ''Failed to read response'')
                                     (Log Error ''Failed to read response body'' c)
                              else RespondData (StatusCode resp)
                                     (Header_Get (RHeader resp) ''Content-Type'') respBody
                                     (copyResponseHeaders (RHeader resp) c)))"

section \<open>The proxy handlers (internal/handlers) and the router (cmd/main.go)\<close>

definition ProxyToAuth :: "Net \<Rightarrow> string \<Rightarrow> handler" where
  "ProxyToAuth net authURL c =
     (let path = Path (ReqURL (Request c));
          servicePath = TrimPrefix path ''/api/v1''
      in ProxyRequest net authURL servicePath (Log Debug ''Proxying to auth service'' c))"

definition ProxyToCaptcha :: "Net \<Rightarrow> string \<Rightarrow> handler" where
  "ProxyToCaptcha net captchaURL c =
     (let path = Path (ReqURL (Request c));
          servicePath = TrimPrefix path ''/api/v1''
      in ProxyRequest net captchaURL servicePath (Log Debug ''Proxying to captcha service'' c))"

text \<open>
  The routes \<open>main\<close> registers under \<open>/api/v1\<close>: method, full path pattern, what the
  route's groups require, and the proxy handler.
\<close>

datatype policy = NoAuth | BearerRequired | BearerOrAPIKey

datatype target = Identity | Solver

definition routes :: "(string \<times> string \<times> policy \<times> target) list" where
  "routes =
     [(''POST'', ''/api/v1/auth/register'', NoAuth, Identity),
      (''POST'', ''/api/v1/auth/login'', NoAuth, Identity),
      (''POST'', ''/api/v1/auth/refresh'', NoAuth, Identity),
      (''POST'', ''/api/v1/auth/logout'', NoAuth, Identity),
      (''GET'', ''/api/v1/auth/me'', BearerRequired, Identity),
      (''PUT'', ''/api/v1/auth/me'', BearerRequired, Identity),
      (''PUT'', ''/api/v1/auth/me/password'', BearerRequired, Identity),
      (''GET'', ''/api/v1/api-keys'', BearerRequired, Identity),
      (''POST'', ''/api/v1/api-keys'', BearerRequired, Identity),
      (''DELETE'', ''/api/v1/api-keys/:id'', BearerRequired, Identity),
      (''POST'', ''/api/v1/captcha/solve'', BearerOrAPIKey, Solver),
      (''POST'', ''/api/v1/captcha/solve/batch'', BearerOrAPIKey, Solver),
      (''GET'', ''/api/v1/captcha/models'', BearerRequired, Solver),
      (''POST'', ''/api/v1/captcha/models/upload'', BearerRequired, Solver),
      (''POST'', ''/api/v1/captcha/train'', BearerRequired, Solver),
      (''GET'', ''/api/v1/captcha/train/:job_id'', BearerRequired, Solver),
      (''GET'', ''/api/v1/captcha/logs'', BearerRequired, Solver),
      (''GET'', ''/api/v1/captcha/stats'', BearerRequired, Solver)]"

text \<open>
  gin matches the request path segment by segment: a literal segment must be equal, a
  parameter segment (\<open>:name\<close>) takes any non-empty segment.
\<close>

definition isParam :: "string \<Rightarrow> bool" where
  "isParam seg = (case seg of [] \<Rightarrow> False | x # xs \<Rightarrow> x = CHR '':'')"

fun matchSegments :: "string list \<Rightarrow> string list \<Rightarrow> bool" where
  "matchSegments [] [] = True"
| "matchSegments (p # ps) (x # xs) = ((if isParam p then x \<noteq> [] else p = x) \<and> matchSegments ps xs)"
| "matchSegments ps xs = False"

definition matchPath :: "string \<Rightarrow> string \<Rightarrow> bool" where
  "matchPath pattern path = matchSegments (Split pattern (CHR ''/'')) (Split path (CHR ''/''))"

definition findRoute :: "string \<Rightarrow> string \<Rightarrow> (policy \<times> target) option" where
  "findRoute m path =
     (case find (\<lambda>(rm, pattern, pol, tgt). rm = m \<and> matchPath pattern path) routes of
        None \<Rightarrow> None
      | Some (rm, pattern, pol, tgt) \<Rightarrow> Some (pol, tgt))"

text \<open>
  What a request meets besides the configuration: gin's mode, the fresh identifier, the
  limiter's clock, the shared counter store (\<open>None\<close> when \<open>redisClient\<close> is nil), the hash
  function, the network, and the formatted time of the health answer.
\<close>

record Env =
  Cfg :: Config
  Mode :: string
  Fresh :: string
  Now :: int
  RedisExec :: "(string \<Rightarrow> Duration \<Rightarrow> string + int) option"
  Sha256Hex :: "string \<Rightarrow> string"
  Network :: Net
  Clock :: string


definition healthHandler :: "string \<Rightarrow> handler" where
  "healthHandler clock c =
     RespondJSON 200 [(''service'', ''gateway''), (''status'', ''healthy''), (''time'', clock)] c"

text \<open>gin's answer when no route matches.\<close>

definition notFound :: handler where
  "notFound c =
     (let c = c\<lparr>Writer := (Writer c)\<lparr>Status := 404\<rparr>\<rparr>
      in RespondData 404 ''text/plain'' ''404 page not found'' c)"

definition rateLimiter :: "Env \<Rightarrow> handler \<Rightarrow> handler" where
  "rateLimiter env next =
     (case RedisExec env of
        Some exec \<Rightarrow>
          RateLimiterRedis exec (Requests (RateLimit (Cfg env))) (Window (RateLimit (Cfg env))) next
      | None \<Rightarrow> RateLimiterMemory (Requests (RateLimit (Cfg env))) (Now env) next)"

definition authenticate :: "Env \<Rightarrow> policy \<Rightarrow> handler \<Rightarrow> handler" where
  "authenticate env pol next =
     (case pol of
        NoAuth \<Rightarrow> next
      | BearerRequired \<Rightarrow> AuthRequired (Secret (JWT (Cfg env))) next
      | BearerOrAPIKey \<Rightarrow> APIKeyOrJWTAuth (Sha256Hex env) (Secret (JWT (Cfg env))) next)"

definition forward :: "Env \<Rightarrow> target \<Rightarrow> handler" where
  "forward env tgt =
     (case tgt of
        Identity \<Rightarrow> ProxyToAuth (Network env) (AuthURL (Services (Cfg env)))
      | Solver \<Rightarrow> ProxyToCaptcha (Network env) (CaptchaURL (Services (Cfg env))))"

text \<open>The handlers of a matched \<open>/api/v1\<close> route, after the global middleware.\<close>

definition routeChain :: "Env \<Rightarrow> policy \<Rightarrow> target \<Rightarrow> handler" where
  "routeChain env pol tgt = rateLimiter env (authenticate env pol (forward env tgt))"

definition dispatch :: "Env \<Rightarrow> handler" where
  "dispatch env c =
     (let m = Method (Request c); path = Path (ReqURL (Request c))
      in if m = ''GET'' \<and> path = ''/health'' then healthHandler (Clock env) c
         else case findRoute m path of
                Some (pol, tgt) \<Rightarrow> routeChain env pol tgt c
              | None \<Rightarrow> notFound c)"

text \<open>The global middleware in the order \<open>main\<close> installs it, around the route's chain.\<close>

definition globalMiddleware :: "Env \<Rightarrow> handler \<Rightarrow> handler" where
  "globalMiddleware env next =
     Recovery (Logger (RequestID (Fresh env) (CORSHandler (CORS (Cfg env))
       (SecurityHeaders (Mode env) next))))"

definition newContext :: "Request \<Rightarrow> (string \<times> int \<times> int) list \<Rightarrow> Context" where
  "newContext req clients =
     \<lparr> Request = req,
       Writer = \<lparr> Status = 200, RespHeader = [], RespBody = NoBody \<rparr>,
       Keys = [], Aborted = False, Clients = clients, Upstream = [], Logs = [],
       Buffered = 0, Panicked = False \<rparr>"

text \<open>Serving one request, from the state \<open>clients\<close> of the in-memory limiter.\<close>

definition serve :: "Env \<Rightarrow> (string \<times> int \<times> int) list \<Rightarrow> Request \<Rightarrow> Context" where
  "serve env clients req = globalMiddleware env (dispatch env) (newContext req clients)"

text \<open>A request to a route whose groups install \<open>AuthRequired\<close>, served by that chain.\<close>

definition serveBearerRequired ::
  "Env \<Rightarrow> target \<Rightarrow> (string \<times> int \<times> int) list \<Rightarrow> Request \<Rightarrow> Context" where
  "serveBearerRequired env tgt clients req =
     globalMiddleware env (routeChain env BearerRequired tgt) (newContext req clients)"

section \<open>Example inputs\<close>

text \<open>The configuration \<open>Load\<close> gives for an empty environment.\<close>

definition exampleConfig :: Config where
  "exampleConfig =
     \<lparr> ListenPort = 8080, Environment = ''development'',
       JWT = \<lparr> Secret = ''your-secret-key-min-32-characters-long'',
               ExpiresIn = 24 * Hour, RefreshExpiresIn = 7 * 24 * Hour \<rparr>,
       CORS = \<lparr> AllowedOrigins = [''http://localhost:3000''],
                AllowedMethods = [''GET'', ''POST'', ''PUT'', ''DELETE'', ''OPTIONS'', ''PATCH''],
                AllowedHeaders = [''Accept'', ''Authorization'', ''Content-Type'', ''X-API-Key'',
                                  ''X-Request-ID'', ''X-Requested-With''] \<rparr>,
       RateLimit = \<lparr> Requests = 100, Window = 60 * Second \<rparr>,
       Redis = \<lparr> Host = ''localhost'', Port = 6379, Password = [], DB = 0 \<rparr>,
       Services = \<lparr> AuthURL = ''http://localhost:8081'', CaptchaURL = ''http://localhost:8082'' \<rparr>,
       LogLevel = ''info'' \<rparr>"

text \<open>
  An upstream that answers every request with 200 and the given response headers, the
  URL parser's result for the identity service, and a request constructor that does not
  fail.
\<close>

definition exampleNet :: "header \<Rightarrow> Net" where
  "exampleNet responseHeaders =
     \<lparr> urlParse = (\<lambda>s. Some \<lparr> Scheme = ''http'', URLHost = ''localhost:8081'', Path = [], RawQuery = [] \<rparr>),
       newRequestFails = (\<lambda>m u. False),
       DoRequest = (\<lambda>r. Some \<lparr> StatusCode = 200, RHeader = responseHeaders,
                                  RBody = \<lparr> Chunks = [''ok''], Fails = False \<rparr> \<rparr>) \<rparr>"

definition exampleEnv :: "header \<Rightarrow> Env" where
  "exampleEnv responseHeaders =
     \<lparr> Cfg = exampleConfig, Mode = ''debug'', Fresh = ''generated-id'', Now = 0,
       RedisExec = None, Sha256Hex = (\<lambda>s. []), Network = exampleNet responseHeaders,
       Clock = ''2024-01-01T00:00:00Z'' \<rparr>"

text \<open>
  \<open>PUT /api/v1/auth/me?verbose=1\<close> with a bearer token of three segments whose third
  segment is the single character \<open>c\<close> (no HMAC-SHA256 signature has that encoding), a
  hop-by-hop header, an inbound correlation id and a body that arrives in three chunks.
\<close>

definition exampleRequest :: Request where
  "exampleRequest =
     \<lparr> Method = ''PUT'',
       ReqURL = \<lparr> Scheme = [], URLHost = [], Path = ''/api/v1/auth/me'', RawQuery = ''verbose=1'' \<rparr>,
       Header = [(''Authorization'', [''Bearer a.b.c'']), (''Connection'', [''keep-alive'']),
                 (''X-Request-Id'', [''req-42''])],
       Body = Some \<lparr> Chunks = [''aaaa'', ''bbbb'', ''cccc''], Fails = False \<rparr>,
       ClientIP = ''10.0.0.1'' \<rparr>"

text \<open>An upstream answer with a content type only.\<close>

definition quietHeaders :: header where
  "quietHeaders = [(''Content-Type'', [''application/json''])]"

text \<open>An upstream answer that carries a correlation id of its own.\<close>

definition upstreamHeaders :: header where
  "upstreamHeaders = [(''Content-Type'', [''application/json'']), (''X-Request-Id'', [''upstream-7''])]"

section \<open>Vocabulary of the proofs\<close>

text \<open>
  The response headers that \<open>RequestID\<close> and \<open>SecurityHeaders\<close> set, by canonical name,
  and what every middleware leaves alone on the way to the next handler: the request line, body and
  client address, the upstream requests made so far, the correlation id of the context
  and those response headers.
\<close>

definition protectedNames :: "string list" where
  "protectedNames = [''X-Request-Id'', ''X-Content-Type-Options'', ''X-Frame-Options'',
     ''X-Xss-Protection'', ''Referrer-Policy'', ''Strict-Transport-Security'']"

definition advances :: "Context \<Rightarrow> Context \<Rightarrow> bool" where
  "advances c c' \<longleftrightarrow>
     ReqURL (Request c') = ReqURL (Request c) \<and> Method (Request c') = Method (Request c)
     \<and> Body (Request c') = Body (Request c) \<and> ClientIP (Request c') = ClientIP (Request c)
     \<and> Upstream c' = Upstream c \<and> Panicked c' = Panicked c \<and> Buffered c' = Buffered c
     \<and> map_of (Keys c') ''request_id'' = map_of (Keys c) ''request_id''
     \<and> (\<forall>k \<in> set protectedNames. map_of (RespHeader (Writer c')) k = map_of (RespHeader (Writer c)) k)"

text \<open>The inbound body as \<open>io.ReadAll\<close> returns it, and the base URL of a target.\<close>

definition wholeBody :: "Context \<Rightarrow> string" where
  "wholeBody c = (case Body (Request c) of None \<Rightarrow> [] | Some r \<Rightarrow> concat (Chunks r))"

definition targetURL :: "Env \<Rightarrow> target \<Rightarrow> string" where
  "targetURL env tgt =
     (case tgt of Identity \<Rightarrow> AuthURL (Services (Cfg env)) | Solver \<Rightarrow> CaptchaURL (Services (Cfg env)))"

text \<open>
  Proof vocabulary: \<open>finish\<close> is what \<open>Recovery\<close> and \<open>Logger\<close> do after the handlers
  below them have returned; \<open>afterCORS\<close> and \<open>afterSecurity\<close> are the states after the
  global middleware up to \<open>CORS\<close> and up to \<open>SecurityHeaders\<close>.
\<close>

definition finish :: handler where
  "finish = Recovery (Logger (\<lambda>c. c))"

definition afterCORS :: "Env \<Rightarrow> Context \<Rightarrow> Context" where
  "afterCORS env c = CORSHandler (CORS (Cfg env)) (\<lambda>c. c) (RequestID (Fresh env) (\<lambda>c. c) c)"

definition afterSecurity :: "Env \<Rightarrow> Context \<Rightarrow> Context" where
  "afterSecurity env c = SecurityHeaders (Mode env) (\<lambda>c. c) (afterCORS env c)"



text \<open>The header names the forwarder sets itself on the upstream request, in canonical form.\<close>

definition forwarderNames :: "string list" where
  "forwarderNames = [''X-Forwarded-For'', ''X-Real-Ip'', ''X-Request-Id'', ''X-User-Id'',
     ''X-User-Email'', ''X-User-Role'', ''X-Api-Key-Hash'']"

text \<open>A header map as net/http builds it: every name once, in canonical form.\<close>

definition canonicalHeader :: "header \<Rightarrow> bool" where
  "canonicalHeader h =
     (distinct (map fst h) \<and> list_all (\<lambda>(k, vs). CanonicalMIMEHeaderKey k = k) h)"

text \<open>A counter store that cannot be reached.\<close>

definition unreachable :: "string \<Rightarrow> Duration \<Rightarrow> string + int" where
  "unreachable key window = Inl ''dial tcp: connection refused''"

section \<open>Runs of the rate limiters\<close>

text \<open>A request of the client with address \<open>ip\<close>.\<close>

definition clientRequest :: "string \<Rightarrow> Request" where
  "clientRequest ip =
     \<lparr> Method = ''GET'',
       ReqURL = \<lparr> Scheme = [], URLHost = [], Path = ''/api/v1/captcha/stats'', RawQuery = [] \<rparr>,
       Header = [], Body = None, ClientIP = ip \<rparr>"








text \<open>How many requests of a run were passed on.\<close>

definition passed :: "bool list \<Rightarrow> nat" where
  "passed bs = length (filter (\<lambda>b. b) bs)"

text \<open>
  An \<open>Authorization\<close> value in the form the authenticator lets through: two parts at the
  first space, the first \<open>bearer\<close> in any case, the second with three segments.
\<close>

definition bearerFormat :: "string \<Rightarrow> bool" where
  "bearerFormat authHeader =
     (length (SplitN2 authHeader (CHR '' '')) = 2
      \<and> ToLower (SplitN2 authHeader (CHR '' '') ! 0) = ''bearer''
      \<and> length (Split (SplitN2 authHeader (CHR '' '') ! 1) (CHR ''.'')) = 3)"

text \<open>The in-memory limiter's map when the example client has used up a limit of 100.\<close>

definition exhausted :: "(string \<times> int \<times> int) list" where
  "exhausted = [(''10.0.0.1'', 100, 0)]"

section \<open>Facts about strings and headers\<close>

lemma Split_nonempty [simp]: "Split s sep \<noteq> []"
  by (induction s) (auto split: list.splits)

lemma Split_hd_prefix: "Split s sep = p # rest \<Longrightarrow> prefix p s"
proof (induction s arbitrary: p rest)
  case Nil
  then show ?case by simp
next
  case (Cons x xs)
  show ?case
  proof (cases "x = sep")
    case True
    with Cons.prems show ?thesis by simp
  next
    case False
    obtain q qs where q: "Split xs sep = q # qs"
      by (cases "Split xs sep") simp_all
    with False Cons.prems have "p = x # q" by simp
    moreover from Cons.IH [OF q] have "prefix q xs" .
    ultimately show ?thesis by simp
  qed
qed

lemma Split_Cons2:
  "Split s sep = p # q # rest \<Longrightarrow> \<exists>t. s = p @ sep # t \<and> Split t sep = q # rest"
proof (induction s arbitrary: p)
  case Nil
  then show ?case by simp
next
  case (Cons x xs)
  show ?case
  proof (cases "x = sep")
    case True
    with Cons.prems show ?thesis by auto
  next
    case False
    obtain p' ps where p': "Split xs sep = p' # ps"
      by (cases "Split xs sep") simp_all
    with False Cons.prems have eq: "p = x # p'" "ps = q # rest" by simp_all
    from Cons.IH [of p'] p' eq obtain t where "xs = p' @ sep # t" "Split t sep = q # rest"
      by auto
    with eq show ?thesis by auto
  qed
qed


lemma natToString_nonempty [simp]: "natToString n \<noteq> []"
  by (subst natToString.simps) simp

lemma intToString_nonempty [simp]: "intToString n \<noteq> []"
  by (simp add: intToString_def)

lemma canon_literals [simp]:
  "CanonicalMIMEHeaderKey ''X-Request-ID'' = ''X-Request-Id''"
  "CanonicalMIMEHeaderKey ''X-Request-Id'' = ''X-Request-Id''"
  "CanonicalMIMEHeaderKey ''Origin'' = ''Origin''"
  "CanonicalMIMEHeaderKey ''Authorization'' = ''Authorization''"
  "CanonicalMIMEHeaderKey ''Connection'' = ''Connection''"
  "CanonicalMIMEHeaderKey ''X-API-Key'' = ''X-Api-Key''"
  "CanonicalMIMEHeaderKey ''X-API-Key-Hash'' = ''X-Api-Key-Hash''"
  "CanonicalMIMEHeaderKey ''X-User-ID'' = ''X-User-Id''"
  "CanonicalMIMEHeaderKey ''X-User-Email'' = ''X-User-Email''"
  "CanonicalMIMEHeaderKey ''X-User-Role'' = ''X-User-Role''"
  "CanonicalMIMEHeaderKey ''X-Forwarded-For'' = ''X-Forwarded-For''"
  "CanonicalMIMEHeaderKey ''X-Real-IP'' = ''X-Real-Ip''"
  "CanonicalMIMEHeaderKey ''Content-Type'' = ''Content-Type''"
  "CanonicalMIMEHeaderKey ''Access-Control-Allow-Origin'' = ''Access-Control-Allow-Origin''"
  "CanonicalMIMEHeaderKey ''Access-Control-Allow-Methods'' = ''Access-Control-Allow-Methods''"
  "CanonicalMIMEHeaderKey ''Access-Control-Allow-Headers'' = ''Access-Control-Allow-Headers''"
  "CanonicalMIMEHeaderKey ''Access-Control-Allow-Credentials'' = ''Access-Control-Allow-Credentials''"
  "CanonicalMIMEHeaderKey ''Access-Control-Max-Age'' = ''Access-Control-Max-Age''"
  "CanonicalMIMEHeaderKey ''X-Content-Type-Options'' = ''X-Content-Type-Options''"
  "CanonicalMIMEHeaderKey ''X-Frame-Options'' = ''X-Frame-Options''"
  "CanonicalMIMEHeaderKey ''X-XSS-Protection'' = ''X-Xss-Protection''"
  "CanonicalMIMEHeaderKey ''X-Xss-Protection'' = ''X-Xss-Protection''"
  "CanonicalMIMEHeaderKey ''Referrer-Policy'' = ''Referrer-Policy''"
  "CanonicalMIMEHeaderKey ''Strict-Transport-Security'' = ''Strict-Transport-Security''"
  "CanonicalMIMEHeaderKey ''X-RateLimit-Limit'' = ''X-Ratelimit-Limit''"
  "CanonicalMIMEHeaderKey ''X-RateLimit-Remaining'' = ''X-Ratelimit-Remaining''"
  "CanonicalMIMEHeaderKey ''X-RateLimit-Reset'' = ''X-Ratelimit-Reset''"
  by code_simp+

lemma map_of_Header_Set [simp]:
  "map_of (Header_Set h k v) k' = (if CanonicalMIMEHeaderKey k = k' then Some [v] else map_of h k')"
  by (simp add: Header_Set_def update_conv')

lemma map_of_Header_Del [simp]:
  "map_of (Header_Del h k) k' = (if CanonicalMIMEHeaderKey k = k' then None else map_of h k')"
  by (simp add: Header_Del_def delete_conv')

lemma map_of_Header_Add [simp]:
  "map_of (Header_Add h k v) k' =
     (if CanonicalMIMEHeaderKey k = k' then Some (Header_Values h k @ [v]) else map_of h k')"
  by (simp add: Header_Add_def update_conv')

lemma map_of_writeContentType [simp]:
  "k' \<noteq> ''Content-Type'' \<Longrightarrow> map_of (writeContentType v h) k' = map_of h k'"
  by (auto simp: writeContentType_def update_conv' split: option.splits list.splits)

section \<open>Configuration loading: the signing secret\<close>

lemma Load_secret: "Load pd env = Inr cfg \<Longrightarrow> Secret (JWT cfg) = getEnv env ''JWT_SECRET'' defaultSecret"
  by (auto simp: Load_def Let_def split: if_splits)

lemma Load_Inl_iff:
  "(\<exists>e. Load pd env = Inl e) \<longleftrightarrow> length (getEnv env ''JWT_SECRET'' defaultSecret) < 32"
  by (auto simp: Load_def Let_def)

lemma Load_Inr_iff:
  "(\<exists>cfg. Load pd env = Inr cfg) \<longleftrightarrow> 32 \<le> length (getEnv env ''JWT_SECRET'' defaultSecret)"
  by (auto simp: Load_def Let_def)

lemma length_defaultSecret: "length defaultSecret = 38"
  by (simp add: defaultSecret_def)

text \<open>
  C10. When \<open>JWT_SECRET\<close> is unset or set to the empty string, loading succeeds and the
  secret of the configuration is the built-in default
  \<open>''your-secret-key-min-32-characters-long''\<close>; \<open>Load\<close> returns an error exactly when
  \<open>JWT_SECRET\<close> is set to a non-empty value shorter than 32 bytes, so a missing secret
  never makes startup fail.
\<close>

theorem Load_default_secret:
  "(env ''JWT_SECRET'' = None \<or> env ''JWT_SECRET'' = Some [] \<longrightarrow>
      (\<exists>cfg. Load pd env = Inr cfg
         \<and> Secret (JWT cfg) = ''your-secret-key-min-32-characters-long''))
   \<and> ((\<exists>e. Load pd env = Inl e) \<longleftrightarrow>
        (\<exists>s. env ''JWT_SECRET'' = Some s \<and> s \<noteq> [] \<and> length s < 32))"
proof (intro conjI impI)
  assume unset: "env ''JWT_SECRET'' = None \<or> env ''JWT_SECRET'' = Some []"
  then have g: "getEnv env ''JWT_SECRET'' defaultSecret = defaultSecret"
    by (auto simp: getEnv_def Getenv_def)
  then have "\<exists>cfg. Load pd env = Inr cfg"
    by (simp add: Load_Inr_iff length_defaultSecret)
  then obtain cfg where c: "Load pd env = Inr cfg" ..
  from Load_secret [OF c] g have "Secret (JWT cfg) = defaultSecret" by simp
  with c show "\<exists>cfg. Load pd env = Inr cfg
      \<and> Secret (JWT cfg) = ''your-secret-key-min-32-characters-long''"
    by (auto simp: defaultSecret_def)
next
  show "(\<exists>e. Load pd env = Inl e) \<longleftrightarrow>
        (\<exists>s. env ''JWT_SECRET'' = Some s \<and> s \<noteq> [] \<and> length s < 32)"
    unfolding Load_Inl_iff
    by (cases "env ''JWT_SECRET''")
       (auto simp: getEnv_def Getenv_def Let_def length_defaultSecret)
qed

theorem Load_default_secret_witness:
  "(\<exists>cfg. Load (\<lambda>s. None) Map.empty = Inr cfg
      \<and> Secret (JWT cfg) = ''your-secret-key-min-32-characters-long'')
   \<and> (\<exists>e. Load (\<lambda>s. None) [''JWT_SECRET'' \<mapsto> ''too-short''] = Inl e)"
  using Load_default_secret [of Map.empty "\<lambda>s. None"]
        Load_default_secret [of "[''JWT_SECRET'' \<mapsto> ''too-short'']" "\<lambda>s. None"]
  by simp

section \<open>Facts about the context operations and the middleware\<close>



lemma SetRespHeader_fields [simp]:
  "Request (SetRespHeader k v c) = Request c"
  "Keys (SetRespHeader k v c) = Keys c"
  "Aborted (SetRespHeader k v c) = Aborted c"
  "Clients (SetRespHeader k v c) = Clients c"
  "Upstream (SetRespHeader k v c) = Upstream c"
  "Logs (SetRespHeader k v c) = Logs c"
  "Buffered (SetRespHeader k v c) = Buffered c"
  "Panicked (SetRespHeader k v c) = Panicked c"
  "Status (Writer (SetRespHeader k v c)) = Status (Writer c)"
  "RespBody (Writer (SetRespHeader k v c)) = RespBody (Writer c)"
  "map_of (RespHeader (Writer (SetRespHeader k v c))) k' =
     (if CanonicalMIMEHeaderKey k = k' then (if v = [] then None else Some [v])
      else map_of (RespHeader (Writer c)) k')"
  by (simp_all add: SetRespHeader_def)

lemma SetReqHeader_fields [simp]:
  "Method (Request (SetReqHeader k v c)) = Method (Request c)"
  "ReqURL (Request (SetReqHeader k v c)) = ReqURL (Request c)"
  "Body (Request (SetReqHeader k v c)) = Body (Request c)"
  "ClientIP (Request (SetReqHeader k v c)) = ClientIP (Request c)"
  "Header (Request (SetReqHeader k v c)) = Header_Set (Header (Request c)) k v"
  "Writer (SetReqHeader k v c) = Writer c"
  "Keys (SetReqHeader k v c) = Keys c"
  "Aborted (SetReqHeader k v c) = Aborted c"
  "Clients (SetReqHeader k v c) = Clients c"
  "Upstream (SetReqHeader k v c) = Upstream c"
  "Logs (SetReqHeader k v c) = Logs c"
  "Buffered (SetReqHeader k v c) = Buffered c"
  "Panicked (SetReqHeader k v c) = Panicked c"
  by (simp_all add: SetReqHeader_def)

lemma SetKey_fields [simp]:
  "Request (SetKey k v c) = Request c"
  "Writer (SetKey k v c) = Writer c"
  "Keys (SetKey k v c) = AList.update k v (Keys c)"
  "Aborted (SetKey k v c) = Aborted c"
  "Clients (SetKey k v c) = Clients c"
  "Upstream (SetKey k v c) = Upstream c"
  "Logs (SetKey k v c) = Logs c"
  "Buffered (SetKey k v c) = Buffered c"
  "Panicked (SetKey k v c) = Panicked c"
  by (simp_all add: SetKey_def)

lemma Log_fields [simp]:
  "Request (Log l m c) = Request c"
  "Writer (Log l m c) = Writer c"
  "Keys (Log l m c) = Keys c"
  "Aborted (Log l m c) = Aborted c"
  "Clients (Log l m c) = Clients c"
  "Upstream (Log l m c) = Upstream c"
  "Logs (Log l m c) = Logs c @ [(l, m)]"
  "Buffered (Log l m c) = Buffered c"
  "Panicked (Log l m c) = Panicked c"
  by (simp_all add: Log_def)

lemma Render_fields [simp]:
  "Request (Render st ct b c) = Request c"
  "Keys (Render st ct b c) = Keys c"
  "Aborted (Render st ct b c) = Aborted c"
  "Clients (Render st ct b c) = Clients c"
  "Upstream (Render st ct b c) = Upstream c"
  "Logs (Render st ct b c) = Logs c"
  "Buffered (Render st ct b c) = Buffered c"
  "Panicked (Render st ct b c) = Panicked c"
  "Status (Writer (Render st ct b c)) = st"
  "RespHeader (Writer (Render st ct b c)) = writeContentType ct (RespHeader (Writer c))"
  "RespBody (Writer (Render st ct b c)) = (if bodyAllowedForStatus st then b else RespBody (Writer c))"
  by (simp_all add: Render_def)

lemma Abort_fields [simp]:
  "Request (Abort c) = Request c"
  "Writer (Abort c) = Writer c"
  "Keys (Abort c) = Keys c"
  "Aborted (Abort c) = True"
  "Clients (Abort c) = Clients c"
  "Upstream (Abort c) = Upstream c"
  "Logs (Abort c) = Logs c"
  "Buffered (Abort c) = Buffered c"
  "Panicked (Abort c) = Panicked c"
  by (simp_all add: Abort_def)

lemma AbortWithStatus_fields [simp]:
  "Request (AbortWithStatus st c) = Request c"
  "Keys (AbortWithStatus st c) = Keys c"
  "Aborted (AbortWithStatus st c) = True"
  "Clients (AbortWithStatus st c) = Clients c"
  "Upstream (AbortWithStatus st c) = Upstream c"
  "Logs (AbortWithStatus st c) = Logs c"
  "Buffered (AbortWithStatus st c) = Buffered c"
  "Panicked (AbortWithStatus st c) = Panicked c"
  "Status (Writer (AbortWithStatus st c)) = st"
  "RespHeader (Writer (AbortWithStatus st c)) = RespHeader (Writer c)"
  "RespBody (Writer (AbortWithStatus st c)) = RespBody (Writer c)"
  by (simp_all add: AbortWithStatus_def)

lemmas respond_defs = RespondJSON_def RespondData_def AbortWithStatusJSON_def

lemma advances_refl [simp]: "advances c c"
  by (simp add: advances_def)






lemma map_of_update_other [simp]: "k \<noteq> k' \<Longrightarrow> map_of (AList.update k v al) k' = map_of al k'"
  by (simp add: update_conv')




subsection \<open>Copying headers\<close>

lemma fold_Header_Add_present:
  "map_of h k' \<noteq> None \<Longrightarrow> map_of (fold (\<lambda>v h. Header_Add h key v) vals h) k' \<noteq> None"
  by (induction vals arbitrary: h) auto

lemma fold_Header_Add_key:
  "vals \<noteq> [] \<Longrightarrow>
   map_of (fold (\<lambda>v h. Header_Add h key v) vals h) (CanonicalMIMEHeaderKey key) \<noteq> None"
proof (induction vals arbitrary: h)
  case Nil
  then show ?case by simp
next
  case (Cons v vals)
  have "map_of (Header_Add h key v) (CanonicalMIMEHeaderKey key) \<noteq> None" by simp
  from fold_Header_Add_present [OF this] show ?case by simp
qed

lemma copyHeaders_present:
  "map_of dst k' \<noteq> None \<Longrightarrow> map_of (copyHeaders src dst) k' \<noteq> None"
proof (induction src arbitrary: dst)
  case Nil
  then show ?case by (simp add: copyHeaders_def)
next
  case (Cons e src)
  obtain key vals where e: "e = (key, vals)" by (cases e)
  from Cons.prems have "map_of (fold (\<lambda>v h. Header_Add h key v) vals dst) k' \<noteq> None"
    by (rule fold_Header_Add_present)
  from Cons.IH [OF this] show ?case by (simp add: copyHeaders_def e)
qed

lemma copyHeaders_copies:
  "(key, vals) \<in> set src \<Longrightarrow> vals \<noteq> [] \<Longrightarrow>
   map_of (copyHeaders src dst) (CanonicalMIMEHeaderKey key) \<noteq> None"
proof (induction src arbitrary: dst)
  case Nil
  then show ?case by simp
next
  case (Cons e src)
  obtain k vs where e: "e = (k, vs)" by (cases e)
  have step: "copyHeaders (e # src) dst = copyHeaders src (fold (\<lambda>v h. Header_Add h k v) vs dst)"
    by (simp add: copyHeaders_def e)
  show ?case
  proof (cases "(key, vals) = e")
    case True
    with Cons.prems e have "map_of (fold (\<lambda>v h. Header_Add h k v) vs dst) (CanonicalMIMEHeaderKey key) \<noteq> None"
      using fold_Header_Add_key [of vs k dst] by auto
    then show ?thesis unfolding step by (rule copyHeaders_present)
  next
    case False
    with Cons.prems have "(key, vals) \<in> set src" by auto
    from Cons.IH [OF this Cons.prems(2)] show ?thesis unfolding step .
  qed
qed

lemma fold_SetRespHeader_fields [simp]:
  "Request (fold (\<lambda>v c. SetRespHeader key v c) vals c) = Request c"
  "Keys (fold (\<lambda>v c. SetRespHeader key v c) vals c) = Keys c"
  "Aborted (fold (\<lambda>v c. SetRespHeader key v c) vals c) = Aborted c"
  "Clients (fold (\<lambda>v c. SetRespHeader key v c) vals c) = Clients c"
  "Upstream (fold (\<lambda>v c. SetRespHeader key v c) vals c) = Upstream c"
  "Logs (fold (\<lambda>v c. SetRespHeader key v c) vals c) = Logs c"
  "Buffered (fold (\<lambda>v c. SetRespHeader key v c) vals c) = Buffered c"
  "Panicked (fold (\<lambda>v c. SetRespHeader key v c) vals c) = Panicked c"
  "Status (Writer (fold (\<lambda>v c. SetRespHeader key v c) vals c)) = Status (Writer c)"
  "RespBody (Writer (fold (\<lambda>v c. SetRespHeader key v c) vals c)) = RespBody (Writer c)"
  by (induction vals arbitrary: c) simp_all

lemma fold_SetRespHeader_other:
  "CanonicalMIMEHeaderKey key \<noteq> k' \<Longrightarrow>
   map_of (RespHeader (Writer (fold (\<lambda>v c. SetRespHeader key v c) vals c))) k'
     = map_of (RespHeader (Writer c)) k'"
  by (induction vals arbitrary: c) simp_all

lemma copyResponseHeaders_fields [simp]:
  "Request (copyResponseHeaders src c) = Request c"
  "Keys (copyResponseHeaders src c) = Keys c"
  "Aborted (copyResponseHeaders src c) = Aborted c"
  "Clients (copyResponseHeaders src c) = Clients c"
  "Upstream (copyResponseHeaders src c) = Upstream c"
  "Logs (copyResponseHeaders src c) = Logs c"
  "Buffered (copyResponseHeaders src c) = Buffered c"
  "Panicked (copyResponseHeaders src c) = Panicked c"
  "Status (Writer (copyResponseHeaders src c)) = Status (Writer c)"
  "RespBody (Writer (copyResponseHeaders src c)) = RespBody (Writer c)"
  unfolding copyResponseHeaders_def
  by (induction src arbitrary: c) (simp_all add: case_prod_beta)

lemma copyResponseHeaders_silent:
  "\<not> Header_Mentions src k \<Longrightarrow>
   map_of (RespHeader (Writer (copyResponseHeaders src c))) (CanonicalMIMEHeaderKey k)
     = map_of (RespHeader (Writer c)) (CanonicalMIMEHeaderKey k)"
  unfolding copyResponseHeaders_def Header_Mentions_def
  by (induction src arbitrary: c) (auto simp: fold_SetRespHeader_other)


subsection \<open>The forwarder\<close>

lemma forwardString_Buffered [simp]:
  "forwardString (c\<lparr>Buffered := n\<rparr>) key name h = forwardString c key name h"
  by (simp add: forwardString_def GetKey_def)

lemma forwardString_Log [simp]: "forwardString (Log l m c) key name h = forwardString c key name h"
  by (simp add: forwardString_def GetKey_def)

lemma proxyHeaders_Buffered [simp]: "proxyHeaders (c\<lparr>Buffered := n\<rparr>) = proxyHeaders c"
  by (simp add: proxyHeaders_def GetKey_def GetString_def cong: option.case_cong)

lemma proxyHeaders_Log [simp]: "proxyHeaders (Log l m c) = proxyHeaders c"
  by (simp add: proxyHeaders_def GetKey_def GetString_def cong: option.case_cong)

lemma forwardString_present:
  "forwardString c key name h = Some h' \<Longrightarrow> map_of h k' \<noteq> None \<Longrightarrow> map_of h' k' \<noteq> None"
  by (auto simp: forwardString_def split: option.splits any.splits)

lemma forwardString_other:
  "forwardString c key name h = Some h' \<Longrightarrow> CanonicalMIMEHeaderKey name \<noteq> k' \<Longrightarrow>
   map_of h' k' = map_of h k'"
  by (auto simp: forwardString_def split: option.splits any.splits)

text \<open>Every inbound header with a value is a header of the upstream request.\<close>

lemma proxyHeaders_copies:
  assumes "proxyHeaders c = Some h" and "(key, vals) \<in> set (Header (Request c))" and "vals \<noteq> []"
  shows "Header_Has h key"
proof -
  let ?k = "CanonicalMIMEHeaderKey key"
  have "map_of (copyHeaders (Header (Request c)) []) ?k \<noteq> None"
    using assms(2,3) by (rule copyHeaders_copies)
  with assms(1) show ?thesis
    unfolding proxyHeaders_def Header_Has_def Let_def
    by (auto split: option.splits if_splits dest!: forwardString_present [where k' = ?k])
qed


lemma ProxyRequest_Request [simp]: "Request (ProxyRequest net target path c) = Request c"
  by (simp add: ProxyRequest_def RespondJSON_def RespondData_def Let_def ReadAll_def
        split: option.splits prod.splits)

lemma ProxyRequest_Keys [simp]: "Keys (ProxyRequest net target path c) = Keys c"
  by (simp add: ProxyRequest_def RespondJSON_def RespondData_def Let_def ReadAll_def
        split: option.splits prod.splits)

text \<open>The forwarder makes at most one upstream request, and this is the request.\<close>

lemma ProxyRequest_Upstream:
  "Upstream (ProxyRequest net target path c) = Upstream c
   \<or> (\<exists>u h. urlParse net target = Some u \<and> proxyHeaders c = Some h
          \<and> Upstream (ProxyRequest net target path c) =
              Upstream c @ [\<lparr> PMethod = Method (Request c),
                               PURL = u\<lparr>Path := ''/api/v1'' @ path,
                                        RawQuery := RawQuery (ReqURL (Request c))\<rparr>,
                               PHeader = h, PBody = wholeBody c \<rparr>]
          \<and> Buffered (ProxyRequest net target path c) = length (wholeBody c))"
  by (auto simp: ProxyRequest_def RespondJSON_def RespondData_def Let_def ReadAll_def wholeBody_def
        split: option.splits prod.splits)

lemma ProxyRequest_protected:
  assumes "\<And>r resp. DoRequest net r = Some resp \<Longrightarrow> \<not> Header_Mentions (RHeader resp) k"
    and "CanonicalMIMEHeaderKey k \<noteq> ''Content-Type''"
  shows "map_of (RespHeader (Writer (ProxyRequest net target path c))) (CanonicalMIMEHeaderKey k)
           = map_of (RespHeader (Writer c)) (CanonicalMIMEHeaderKey k)"
  using assms
  by (auto simp: ProxyRequest_def RespondJSON_def RespondData_def Let_def ReadAll_def
        copyResponseHeaders_silent split: option.splits prod.splits)

lemma ProxyRequest_413:
  assumes "Status (Writer (ProxyRequest net target path c)) = 413"
  shows "Status (Writer c) = 413 \<or> (\<exists>r resp. DoRequest net r = Some resp \<and> StatusCode resp = 413)"
  using assms
  by (auto simp: ProxyRequest_def RespondJSON_def RespondData_def Let_def ReadAll_def
        split: option.splits prod.splits if_splits)


subsection \<open>The route's chain\<close>

lemma advances_Log [simp]: "advances c (Log l m c)"
  by (simp add: advances_def)

lemma advances_Log_iff [simp]: "advances (Log l m c) c' \<longleftrightarrow> advances c c'"
  by (simp add: advances_def)







subsection \<open>Routes\<close>

lemma find_SomeD: "find P xs = Some x \<Longrightarrow> x \<in> set xs \<and> P x"
  by (induction xs) (auto split: if_splits)

lemma Split_api_v1:
  "Split (CHR ''/'' # CHR ''a'' # CHR ''p'' # CHR ''i'' # CHR ''/'' # CHR ''v'' # CHR ''1'' # CHR ''/'' # rest)
     (CHR ''/'') = [] # ''api'' # ''v1'' # Split rest (CHR ''/'')"
  by (cases "Split rest (CHR ''/'')") simp_all

lemma matchSegments_api_v1:
  "matchSegments ([] # ''api'' # ''v1'' # ps) xs \<Longrightarrow> \<exists>xs'. xs = [] # ''api'' # ''v1'' # xs'"
proof -
  assume m: "matchSegments ([] # ''api'' # ''v1'' # ps) xs"
  then obtain a xs1 where 1: "xs = a # xs1" by (cases xs) auto
  with m have a: "a = []" and m1: "matchSegments (''api'' # ''v1'' # ps) xs1"
    by (auto simp: isParam_def)
  then obtain b xs2 where 2: "xs1 = b # xs2" by (cases xs1) auto
  with m1 have b: "b = ''api''" and m2: "matchSegments (''v1'' # ps) xs2"
    by (auto simp: isParam_def)
  then obtain d xs3 where 3: "xs2 = d # xs3" by (cases xs2) auto
  with m2 have "d = ''v1''" by (auto simp: isParam_def)
  with 1 2 3 a b show ?thesis by simp
qed

lemma Split_api_v1_prefix:
  assumes "Split path (CHR ''/'') = [] # ''api'' # ''v1'' # xs"
  shows "prefix ''/api/v1'' path"
proof -
  from Split_Cons2 [OF assms] obtain t1 where
    t1: "path = [] @ CHR ''/'' # t1" "Split t1 (CHR ''/'') = ''api'' # ''v1'' # xs" by blast
  from Split_Cons2 [OF t1(2)] obtain t2 where
    t2: "t1 = ''api'' @ CHR ''/'' # t2" "Split t2 (CHR ''/'') = ''v1'' # xs" by blast
  from Split_hd_prefix [OF t2(2)] obtain t3 where "t2 = ''v1'' @ t3" by (auto simp: prefix_def)
  with t1 t2 show ?thesis by (simp add: prefix_def)
qed

text \<open>Every path a route matches begins with \<open>/api/v1\<close>.\<close>

lemma findRoute_prefix:
  assumes "findRoute m path = Some (pol, tgt)"
  shows "prefix ''/api/v1'' path"
proof -
  from assms obtain rm pattern where
    "find (\<lambda>(rm, pattern, pol, tgt). rm = m \<and> matchPath pattern path) routes = Some (rm, pattern, pol, tgt)"
    by (auto simp: findRoute_def split: option.splits)
  from find_SomeD [OF this] have "(rm, pattern, pol, tgt) \<in> set routes" "matchPath pattern path"
    by auto
  then have "\<exists>ps. matchSegments ([] # ''api'' # ''v1'' # ps) (Split path (CHR ''/''))"
    unfolding routes_def matchPath_def
    by (auto simp: Split_api_v1 simp del: Split.simps matchSegments.simps)
  then obtain xs where "Split path (CHR ''/'') = [] # ''api'' # ''v1'' # xs"
    using matchSegments_api_v1 by blast
  then show ?thesis by (rule Split_api_v1_prefix)
qed

subsection \<open>The global middleware\<close>

lemma Recovery_fields [simp]:
  "Upstream (Recovery next c) = Upstream (next c)"
  "RespHeader (Writer (Recovery next c)) = RespHeader (Writer (next c))"
  "Buffered (Recovery next c) = Buffered (next c)"
  "Request (Recovery next c) = Request (next c)"
  by (simp_all add: Recovery_def Let_def)

lemma Logger_fields [simp]:
  "Upstream (Logger next c) = Upstream (next c)"
  "Writer (Logger next c) = Writer (next c)"
  "Buffered (Logger next c) = Buffered (next c)"
  "Request (Logger next c) = Request (next c)"
  "Panicked (Logger next c) = Panicked (next c)"
  by (simp_all add: Logger_def Let_def)

lemma finish_fields [simp]:
  "Upstream (finish c) = Upstream c"
  "RespHeader (Writer (finish c)) = RespHeader (Writer c)"
  "Buffered (finish c) = Buffered c"
  "Request (finish c) = Request c"
  by (simp_all add: finish_def)

lemma finish_Status: "\<not> Panicked c \<Longrightarrow> Status (Writer (finish c)) = Status (Writer c)"
  by (simp add: finish_def Recovery_def Logger_def Let_def)

lemma Recovery_Logger: "Recovery (Logger X) c = finish (X c)"
  by (simp add: finish_def Recovery_def Logger_def Let_def)

lemma RequestID_next: "RequestID fresh next c = next (RequestID fresh (\<lambda>c. c) c)"
  by (simp add: RequestID_def Let_def)


lemma CORSHandler_next:
  "Method (Request c) \<noteq> ''OPTIONS'' \<Longrightarrow> CORSHandler cfg next c = next (CORSHandler cfg (\<lambda>c. c) c)"
  by (simp add: CORSHandler_def Let_def)

lemma SecurityHeaders_next: "SecurityHeaders mode next c = next (SecurityHeaders mode (\<lambda>c. c) c)"
  by (simp add: SecurityHeaders_def Let_def)

lemma RequestID_fields [simp]:
  "Request (RequestID fresh (\<lambda>c. c) c) = Request c"
  "Upstream (RequestID fresh (\<lambda>c. c) c) = Upstream c"
  "Panicked (RequestID fresh (\<lambda>c. c) c) = Panicked c"
  "Buffered (RequestID fresh (\<lambda>c. c) c) = Buffered c"
  "Logs (RequestID fresh (\<lambda>c. c) c) = Logs c"
  "Clients (RequestID fresh (\<lambda>c. c) c) = Clients c"
  "Status (Writer (RequestID fresh (\<lambda>c. c) c)) = Status (Writer c)"
  by (simp_all add: RequestID_def Let_def)

lemma CORSHandler_fields [simp]:
  "Request (CORSHandler cfg (\<lambda>c. c) c) = Request c"
  "Upstream (CORSHandler cfg (\<lambda>c. c) c) = Upstream c"
  "Panicked (CORSHandler cfg (\<lambda>c. c) c) = Panicked c"
  "Buffered (CORSHandler cfg (\<lambda>c. c) c) = Buffered c"
  "Keys (CORSHandler cfg (\<lambda>c. c) c) = Keys c"
  "Logs (CORSHandler cfg (\<lambda>c. c) c) = Logs c"
  "Clients (CORSHandler cfg (\<lambda>c. c) c) = Clients c"
  by (simp_all add: CORSHandler_def Let_def)

lemma SecurityHeaders_fields [simp]:
  "Request (SecurityHeaders mode (\<lambda>c. c) c) = Request c"
  "Upstream (SecurityHeaders mode (\<lambda>c. c) c) = Upstream c"
  "Panicked (SecurityHeaders mode (\<lambda>c. c) c) = Panicked c"
  "Buffered (SecurityHeaders mode (\<lambda>c. c) c) = Buffered c"
  "Keys (SecurityHeaders mode (\<lambda>c. c) c) = Keys c"
  "Logs (SecurityHeaders mode (\<lambda>c. c) c) = Logs c"
  "Clients (SecurityHeaders mode (\<lambda>c. c) c) = Clients c"
  "Status (Writer (SecurityHeaders mode (\<lambda>c. c) c)) = Status (Writer c)"
  by (simp_all add: SecurityHeaders_def Let_def)


lemma globalMiddleware_next:
  assumes "Method (Request c) \<noteq> ''OPTIONS''"
  shows "globalMiddleware env next c = finish (next (afterSecurity env c))"
proof -
  let ?sec = "SecurityHeaders (Mode env) next"
  let ?c1 = "RequestID (Fresh env) (\<lambda>c. c) c"
  let ?c2 = "CORSHandler (CORS (Cfg env)) (\<lambda>c. c) ?c1"
  have "RequestID (Fresh env) (CORSHandler (CORS (Cfg env)) ?sec) c
          = CORSHandler (CORS (Cfg env)) ?sec ?c1"
    by (rule RequestID_next)
  also from assms have "\<dots> = ?sec ?c2"
    by (intro CORSHandler_next) simp
  also have "\<dots> = next (SecurityHeaders (Mode env) (\<lambda>c. c) ?c2)"
    by (rule SecurityHeaders_next)
  finally show ?thesis
    by (simp only: globalMiddleware_def Recovery_Logger afterCORS_def afterSecurity_def)
qed

lemma afterCORS_fields [simp]:
  "Request (afterCORS env c) = Request c"
  "Upstream (afterCORS env c) = Upstream c"
  "Panicked (afterCORS env c) = Panicked c"
  "Buffered (afterCORS env c) = Buffered c"
  "Logs (afterCORS env c) = Logs c"
  "Clients (afterCORS env c) = Clients c"
  by (simp_all add: afterCORS_def)

lemma afterSecurity_fields [simp]:
  "Request (afterSecurity env c) = Request c"
  "Upstream (afterSecurity env c) = Upstream c"
  "Panicked (afterSecurity env c) = Panicked c"
  "Buffered (afterSecurity env c) = Buffered c"
  "Logs (afterSecurity env c) = Logs c"
  "Clients (afterSecurity env c) = Clients c"
  by (simp_all add: afterSecurity_def)

lemma newContext_fields [simp]:
  "Request (newContext req clients) = req"
  "Upstream (newContext req clients) = []"
  "Keys (newContext req clients) = []"
  "RespHeader (Writer (newContext req clients)) = []"
  "RespBody (Writer (newContext req clients)) = NoBody"
  "Panicked (newContext req clients) = False"
  "Aborted (newContext req clients) = False"
  "Buffered (newContext req clients) = 0"
  "Status (Writer (newContext req clients)) = 200"
  "Logs (newContext req clients) = []"
  "Clients (newContext req clients) = clients"
  by (simp_all add: newContext_def)



subsection \<open>The example request, served\<close>

text \<open>
  The example request against an upstream whose answer carries \<open>X-Request-Id: upstream-7\<close>:
  the token is accepted, the request is forwarded, and the answer is relayed.
\<close>

lemma example_serve:
  "serve (exampleEnv upstreamHeaders) [] exampleRequest =
     \<lparr> Request =
         \<lparr> Method = ''PUT'',
           ReqURL = \<lparr> Scheme = [], URLHost = [], Path = ''/api/v1/auth/me'', RawQuery = ''verbose=1'' \<rparr>,
           Header =
             [(''Authorization'', [''Bearer a.b.c'']), (''Connection'', [''keep-alive'']),
              (''X-Request-Id'', [''req-42'']), (''X-User-Id'', [''0'']),
              (''X-User-Email'', [[]]), (''X-User-Role'', [[]])],
           Body = Some \<lparr> Chunks = [''aaaa'', ''bbbb'', ''cccc''], Fails = False \<rparr>,
           ClientIP = ''10.0.0.1'' \<rparr>,
       Writer =
         \<lparr> Status = 200,
           RespHeader =
             [(''X-Request-Id'', [''upstream-7'']),
              (''Access-Control-Allow-Methods'', [''GET, POST, PUT, DELETE, OPTIONS, PATCH'']),
              (''Access-Control-Allow-Headers'',
               [''Accept, Authorization, Content-Type, X-API-Key, X-Request-ID, X-Requested-With'']),
              (''Access-Control-Allow-Credentials'', [''true'']),
              (''Access-Control-Max-Age'', [''86400'']),
              (''X-Content-Type-Options'', [''nosniff'']),
              (''X-Frame-Options'', [''DENY'']),
              (''X-Xss-Protection'', [''1; mode=block'']),
              (''Referrer-Policy'', [''strict-origin-when-cross-origin'']),
              (''X-Ratelimit-Limit'', [''100'']),
              (''X-Ratelimit-Remaining'', [''99'']),
              (''Content-Type'', [''application/json''])],
           RespBody = Data ''ok'' \<rparr>,
       Keys =
         [(''request_id'', AString ''req-42''), (''user_id'', AUint64 0),
          (''user_email'', AString []), (''user_role'', AString [])],
       Aborted = False, Clients = [(''10.0.0.1'', 1, 0)],
       Upstream =
         [\<lparr> PMethod = ''PUT'',
            PURL = \<lparr> Scheme = ''http'', URLHost = ''localhost:8081'',
                     Path = ''/api/v1/auth/me'', RawQuery = ''verbose=1'' \<rparr>,
            PHeader =
              [(''Authorization'', [''Bearer a.b.c'']), (''Connection'', [''keep-alive'']),
               (''X-Request-Id'', [''req-42'']), (''X-User-Id'', [''0'']),
               (''X-User-Email'', [[]]), (''X-User-Role'', [[]]),
               (''X-Forwarded-For'', [''10.0.0.1'']), (''X-Real-Ip'', [''10.0.0.1''])],
            PBody = ''aaaabbbbcccc'' \<rparr>],
       Logs =
         [(Debug, ''Proxying to auth service''), (Debug, ''Proxying request''),
          (Info, ''HTTP Request'')],
       Buffered = 12, Panicked = False \<rparr>"
  by code_simp

lemma example_findRoute: "findRoute ''PUT'' ''/api/v1/auth/me'' = Some (BearerRequired, Identity)"
  by code_simp

section \<open>Upstream paths\<close>



subsection \<open>Response headers and the correlation id through the pipeline\<close>















section \<open>The correlation id\<close>




section \<open>Security headers\<close>






section \<open>Forwarded request headers\<close>


lemma fold_Header_Add_map_of:
  assumes "CanonicalMIMEHeaderKey key = key"
  shows "map_of (fold (\<lambda>v h. Header_Add h key v) vals h) k =
           (if k = key \<and> vals \<noteq> []
            then Some ((case map_of h key of None \<Rightarrow> [] | Some ws \<Rightarrow> ws) @ vals)
            else map_of h k)"
  using assms
  by (induction vals arbitrary: h) (auto simp: Header_Values_def)

lemma copyHeaders_map_of:
  assumes "canonicalHeader src"
  shows "map_of (copyHeaders src dst) k =
           (case map_of src k of
              None \<Rightarrow> map_of dst k
            | Some vs \<Rightarrow> if vs = [] then map_of dst k
                        else Some ((case map_of dst k of None \<Rightarrow> [] | Some ws \<Rightarrow> ws) @ vs))"
  using assms
proof (induction src arbitrary: dst)
  case Nil
  then show ?case by (simp add: copyHeaders_def)
next
  case (Cons e src)
  obtain key vals where e: "e = (key, vals)" by (cases e)
  from Cons.prems e have canon: "CanonicalMIMEHeaderKey key = key"
    and rest: "canonicalHeader src" and fresh: "key \<notin> fst ` set src"
    by (auto simp: canonicalHeader_def)
  have step: "copyHeaders (e # src) dst = copyHeaders src (fold (\<lambda>v h. Header_Add h key v) vals dst)"
    by (simp add: copyHeaders_def e)
  from fresh have none: "map_of src key = None" by (simp add: map_of_eq_None_iff)
  show ?case
    unfolding step Cons.IH [OF rest] fold_Header_Add_map_of [OF canon]
    using none by (auto simp: e split: option.splits)
qed

text \<open>
  On a header map as net/http builds it, the values of a name the forwarder does not
  set itself reach the upstream request unchanged.
\<close>

lemma proxyHeaders_values:
  assumes "proxyHeaders c = Some h" and "canonicalHeader (Header (Request c))"
    and "map_of (Header (Request c)) key = Some vals" and "vals \<noteq> []"
    and "key \<notin> set forwarderNames"
  shows "map_of h key = Some vals"
proof -
  have "map_of (copyHeaders (Header (Request c)) []) key = Some vals"
    using assms(3,4) by (simp add: copyHeaders_map_of [OF assms(2)])
  with assms(1,5) show ?thesis
    unfolding proxyHeaders_def Let_def forwarderNames_def
    by (auto split: option.splits if_splits dest!: forwardString_other [where k' = key])
qed


lemma ProxyRequest_new_request:
  assumes "Upstream (ProxyRequest net target path c) = Upstream c @ rs" and "r \<in> set rs"
  shows "proxyHeaders c = Some (PHeader r) \<and> PBody r = wholeBody c
         \<and> Buffered (ProxyRequest net target path c) = length (wholeBody c)"
  using ProxyRequest_Upstream [of net target path c] assms by auto

text \<open>
  C6 (amended). The upstream request contains every inbound request header that has a
  value, the hop-by-hop headers included: nothing is filtered. On a header map as net/http
  builds it, the values are the inbound values for every name the forwarder does not
  set itself (\<open>X-Forwarded-For\<close>, \<open>X-Real-IP\<close>, \<open>X-Request-ID\<close>, \<open>X-User-ID\<close>,
  \<open>X-User-Email\<close>, \<open>X-User-Role\<close>, \<open>X-API-Key-Hash\<close>).
\<close>

theorem inbound_headers_forwarded:
  assumes "Upstream (ProxyRequest net target path c) = Upstream c @ rs" and "r \<in> set rs"
    and "(key, vals) \<in> set (Header (Request c))" and "vals \<noteq> []"
  shows "Header_Has (PHeader r) key
     \<and> (canonicalHeader (Header (Request c)) \<and> key \<notin> set forwarderNames \<longrightarrow>
          Header_Values (PHeader r) key = vals)"
proof (intro conjI impI)
  from ProxyRequest_new_request [OF assms(1,2)] have h: "proxyHeaders c = Some (PHeader r)"
    by simp
  from h assms(3,4) show "Header_Has (PHeader r) key" by (rule proxyHeaders_copies)
  assume a: "canonicalHeader (Header (Request c)) \<and> key \<notin> set forwarderNames"
  with assms(3) have k: "CanonicalMIMEHeaderKey key = key"
    and m: "map_of (Header (Request c)) key = Some vals"
    by (auto simp: canonicalHeader_def list_all_iff)
  from proxyHeaders_values [OF h _ m assms(4)] a k
  show "Header_Values (PHeader r) key = vals" by (simp add: Header_Values_def)
qed

lemma example_canonical: "canonicalHeader (Header exampleRequest)"
  by (simp add: canonicalHeader_def exampleRequest_def)

lemma example_forward:
  "Upstream (ProxyRequest (exampleNet quietHeaders) ''http://localhost:8081'' ''/auth/me''
       (newContext exampleRequest []))
     = Upstream (newContext exampleRequest []) @
       [\<lparr> PMethod = ''PUT'',
          PURL = \<lparr> Scheme = ''http'', URLHost = ''localhost:8081'',
                   Path = ''/api/v1/auth/me'', RawQuery = ''verbose=1'' \<rparr>,
          PHeader = [(''Authorization'', [''Bearer a.b.c'']), (''Connection'', [''keep-alive'']),
                     (''X-Request-Id'', [''req-42'']), (''X-Forwarded-For'', [''10.0.0.1'']),
                     (''X-Real-Ip'', [''10.0.0.1''])],
          PBody = ''aaaabbbbcccc'' \<rparr>]"
  by code_simp

theorem inbound_headers_forwarded_witness:
  "Header_Has [(''Authorization'', [''Bearer a.b.c'']), (''Connection'', [''keep-alive'']),
               (''X-Request-Id'', [''req-42'']), (''X-Forwarded-For'', [''10.0.0.1'']),
               (''X-Real-Ip'', [''10.0.0.1''])] ''Connection''
   \<and> Header_Values [(''Authorization'', [''Bearer a.b.c'']), (''Connection'', [''keep-alive'']),
               (''X-Request-Id'', [''req-42'']), (''X-Forwarded-For'', [''10.0.0.1'']),
               (''X-Real-Ip'', [''10.0.0.1''])] ''Connection'' = [''keep-alive'']"
proof -
  let ?r = "\<lparr> PMethod = ''PUT'',
          PURL = \<lparr> Scheme = ''http'', URLHost = ''localhost:8081'',
                   Path = ''/api/v1/auth/me'', RawQuery = ''verbose=1'' \<rparr>,
          PHeader = [(''Authorization'', [''Bearer a.b.c'']), (''Connection'', [''keep-alive'']),
                     (''X-Request-Id'', [''req-42'']), (''X-Forwarded-For'', [''10.0.0.1'']),
                     (''X-Real-Ip'', [''10.0.0.1''])],
          PBody = ''aaaabbbbcccc'' \<rparr>"
  have 1: "?r \<in> set [?r]" by simp
  have 2: "(''Connection'', [''keep-alive'']) \<in> set (Header (Request (newContext exampleRequest [])))"
    by (simp add: exampleRequest_def)
  have 3: "[''keep-alive''] \<noteq> []" by simp
  have 4: "canonicalHeader (Header (Request (newContext exampleRequest [])))
             \<and> ''Connection'' \<notin> set forwarderNames"
    using example_canonical by (simp add: forwarderNames_def)
  from inbound_headers_forwarded [OF example_forward 1 2 3] 4 show ?thesis by simp
qed

text \<open>
  C6 as stated fails: the inbound \<open>Connection: keep-alive\<close> of the example request, a
  hop-by-hop header, is on the upstream request.
\<close>

theorem hop_by_hop_counterexample:
  "Header_Values (Header exampleRequest) ''Connection'' = [''keep-alive'']
   \<and> map (\<lambda>r. Header_Values (PHeader r) ''Connection'')
         (Upstream (serve (exampleEnv upstreamHeaders) [] exampleRequest)) = [[''keep-alive'']]"
proof
  show "Header_Values (Header exampleRequest) ''Connection'' = [''keep-alive'']"
    by (simp add: exampleRequest_def Header_Values_def)
  show "map (\<lambda>r. Header_Values (PHeader r) ''Connection'')
         (Upstream (serve (exampleEnv upstreamHeaders) [] exampleRequest)) = [[''keep-alive'']]"
    by (simp add: example_serve Header_Values_def)
qed

section \<open>Request bodies\<close>

text \<open>
  C8 (amended). The router has no body-size ceiling, in its configuration or in the
  forwarder: for every forwarded request the forwarder reads the whole inbound body into
  memory with \<open>io.ReadAll\<close>, so it holds as many bytes as the body has, and sends exactly
  these bytes upstream. It answers 413 only when it relays an upstream's 413.
\<close>

theorem body_read_whole:
  "(Upstream (ProxyRequest net target path c) = Upstream c @ rs \<and> r \<in> set rs \<longrightarrow>
      PBody r = (case Body (Request c) of None \<Rightarrow> [] | Some b \<Rightarrow> concat (Chunks b))
      \<and> Buffered (ProxyRequest net target path c) = length (PBody r))
   \<and> (Status (Writer (ProxyRequest net target path c)) = 413 \<longrightarrow>
        Status (Writer c) = 413 \<or> (\<exists>r resp. DoRequest net r = Some resp \<and> StatusCode resp = 413))"
proof (intro conjI impI)
  assume "Upstream (ProxyRequest net target path c) = Upstream c @ rs \<and> r \<in> set rs"
  then have "PBody r = wholeBody c \<and> Buffered (ProxyRequest net target path c) = length (wholeBody c)"
    using ProxyRequest_new_request [of net target path c rs r] by simp
  then show "PBody r = (case Body (Request c) of None \<Rightarrow> [] | Some b \<Rightarrow> concat (Chunks b))"
    and "Buffered (ProxyRequest net target path c) = length (PBody r)"
    by (simp_all add: wholeBody_def)
next
  assume "Status (Writer (ProxyRequest net target path c)) = 413"
  then show "Status (Writer c) = 413 \<or> (\<exists>r resp. DoRequest net r = Some resp \<and> StatusCode resp = 413)"
    by (rule ProxyRequest_413)
qed

theorem body_read_whole_witness:
  "PBody \<lparr> PMethod = ''PUT'',
          PURL = \<lparr> Scheme = ''http'', URLHost = ''localhost:8081'',
                   Path = ''/api/v1/auth/me'', RawQuery = ''verbose=1'' \<rparr>,
          PHeader = [(''Authorization'', [''Bearer a.b.c'']), (''Connection'', [''keep-alive'']),
                     (''X-Request-Id'', [''req-42'']), (''X-Forwarded-For'', [''10.0.0.1'']),
                     (''X-Real-Ip'', [''10.0.0.1''])],
          PBody = ''aaaabbbbcccc'' \<rparr> = concat [''aaaa'', ''bbbb'', ''cccc'']
   \<and> Buffered (ProxyRequest (exampleNet quietHeaders) ''http://localhost:8081'' ''/auth/me''
         (newContext exampleRequest [])) = 12"
proof -
  let ?r = "\<lparr> PMethod = ''PUT'',
          PURL = \<lparr> Scheme = ''http'', URLHost = ''localhost:8081'',
                   Path = ''/api/v1/auth/me'', RawQuery = ''verbose=1'' \<rparr>,
          PHeader = [(''Authorization'', [''Bearer a.b.c'']), (''Connection'', [''keep-alive'']),
                     (''X-Request-Id'', [''req-42'']), (''X-Forwarded-For'', [''10.0.0.1'']),
                     (''X-Real-Ip'', [''10.0.0.1''])],
          PBody = ''aaaabbbbcccc'' \<rparr>"
  have 1: "?r \<in> set [?r]" by simp
  from body_read_whole [of "exampleNet quietHeaders" "''http://localhost:8081''" "''/auth/me''"
      "newContext exampleRequest []" "[?r]" ?r] example_forward 1
  show ?thesis by (simp add: exampleRequest_def)
qed

text \<open>
  C8 as stated fails: the body of the example request arrives in three chunks of four
  bytes; the forwarder holds all twelve bytes before it makes the upstream request, no
  ceiling applies and the request is answered 200.
\<close>

theorem buffered_body_counterexample:
  "Buffered (serve (exampleEnv upstreamHeaders) [] exampleRequest) = 12
   \<and> map PBody (Upstream (serve (exampleEnv upstreamHeaders) [] exampleRequest)) = [''aaaabbbbcccc'']
   \<and> Status (Writer (serve (exampleEnv upstreamHeaders) [] exampleRequest)) = 200"
  by (simp add: example_serve)


section \<open>The counter store is unreachable\<close>

text \<open>
  C7 (amended). When the round trip to the counter store returns an error, the limiter
  is \<open>next\<close> and nothing else: the request proceeds, it is not answered 429, no
  rate-limit header is set, and the limiter writes no log line, of any level.
\<close>

theorem redis_failure_fails_open:
  assumes "exec (''rate_limit:'' @ ClientIP (Request c)) window = Inl err"
  shows "RateLimiterRedis exec maxRequests window next c = next c"
  using assms by (simp add: RateLimiterRedis_def)

theorem redis_failure_fails_open_witness:
  "RateLimiterRedis unreachable 100 (60 * Second) (\<lambda>c. c) (newContext exampleRequest [])
     = newContext exampleRequest []"
  using redis_failure_fails_open [of unreachable "newContext exampleRequest []" "60 * Second"
      "''dial tcp: connection refused''" 100 "\<lambda>c. c"]
  by (simp add: unreachable_def)

text \<open>
  C7 as stated has a warn-level line emitted while the store is unreachable. The
  limiter emits none: after a request that met the unreachable store the log is empty.
\<close>

theorem no_warn_line_counterexample:
  "Logs (RateLimiterRedis unreachable 100 (60 * Second) (\<lambda>c. c) (newContext exampleRequest [])) = []
   \<and> Status (Writer (RateLimiterRedis unreachable 100 (60 * Second) (\<lambda>c. c)
        (newContext exampleRequest []))) = 200"
  by (simp add: RateLimiterRedis_def unreachable_def)

section \<open>Bearer tokens\<close>

text \<open>A token of three segments is accepted whatever its bytes and whatever the secret.\<close>

lemma validateJWT_three_segments:
  "length (Split t (CHR ''.'')) = 3 \<Longrightarrow> validateJWT t secret = Inr \<lparr> UserID = 0, Email = [], Role = [] \<rparr>"
  by (simp add: validateJWT_def)

text \<open>A request without \<open>Authorization\<close> is answered 401 and does not reach the next handler.\<close>

lemma absent_authorization_rejected:
  "GetHeader c ''Authorization'' = [] \<Longrightarrow>
   AuthRequired secret next c =
     AbortWithStatusJSON 401
       [(''error'', ''unauthorized''), (''message'', ''Authorization header is required'')] c"
  by (simp add: AuthRequired_def unauthorized_def)

text \<open>
  A header that is not \<open>bearer\<close>, one space and a token of three segments is answered
  401 as well.
\<close>

lemma malformed_authorization_rejected:
  assumes "GetHeader c ''Authorization'' \<noteq> []"
    and "length (SplitN2 (GetHeader c ''Authorization'') (CHR '' '')) \<noteq> 2
         \<or> ToLower (SplitN2 (GetHeader c ''Authorization'') (CHR '' '') ! 0) \<noteq> ''bearer''
         \<or> length (Split (SplitN2 (GetHeader c ''Authorization'') (CHR '' '') ! 1) (CHR ''.'')) \<noteq> 3"
  shows "\<exists>m. AuthRequired secret next c = AbortWithStatusJSON 401 (unauthorized m) c"
  using assms by (auto simp: AuthRequired_def Let_def validateJWT_def)

text \<open>
  C1, on the code. \<open>validateJWT\<close> accepts \<open>a.b.c\<close> under one secret and \<open>a.b.d\<close>, which
  differs in the last byte, under another, with the same claims: user id 0, empty email,
  empty role. \<open>AuthRequired\<close> passes the example request, whose token is \<open>a.b.c\<close>, on to
  the next handler with that principal, whatever the secret.
\<close>

theorem validateJWT_accepts_unsigned:
  "validateJWT ''a.b.c'' ''secret-one'' = Inr \<lparr> UserID = 0, Email = [], Role = [] \<rparr>
   \<and> validateJWT ''a.b.d'' ''secret-two'' = Inr \<lparr> UserID = 0, Email = [], Role = [] \<rparr>
   \<and> \<not> Aborted (AuthRequired secret (\<lambda>c. c) (newContext exampleRequest []))
   \<and> Status (Writer (AuthRequired secret (\<lambda>c. c) (newContext exampleRequest []))) = 200
   \<and> GetKey (AuthRequired secret (\<lambda>c. c) (newContext exampleRequest [])) ''user_id'' = Some (AUint64 0)
   \<and> GetKey (AuthRequired secret (\<lambda>c. c) (newContext exampleRequest [])) ''user_email'' = Some (AString [])
   \<and> GetKey (AuthRequired secret (\<lambda>c. c) (newContext exampleRequest [])) ''user_role'' = Some (AString [])"
proof -
  have lower: "ToLower ''Bearer'' = ''bearer''" by code_simp
  have h: "GetHeader (newContext exampleRequest []) ''Authorization'' = ''Bearer a.b.c''"
    by (simp add: GetHeader_def Header_Get_def Header_Values_def exampleRequest_def)
  have p: "SplitN2 ''Bearer a.b.c'' (CHR '' '') = [''Bearer'', ''a.b.c'']" by simp
  have v: "validateJWT ''a.b.c'' s = Inr \<lparr> UserID = 0, Email = [], Role = [] \<rparr>" for s
    by (simp add: validateJWT_def)
  have v': "validateJWT ''a.b.d'' s = Inr \<lparr> UserID = 0, Email = [], Role = [] \<rparr>" for s
    by (simp add: validateJWT_def)
  show ?thesis
    by (simp add: AuthRequired_def h p lower v v' Let_def GetKey_def del: SplitN2.simps)
qed

theorem validateJWT_accepts_unsigned_witness:
  "validateJWT ''a.b.c'' ''secret-one'' = Inr \<lparr> UserID = 0, Email = [], Role = [] \<rparr>
   \<and> validateJWT ''a.b.d'' ''secret-two'' = Inr \<lparr> UserID = 0, Email = [], Role = [] \<rparr>
   \<and> \<not> Aborted (AuthRequired ''your-secret-key-min-32-characters-long'' (\<lambda>c. c)
           (newContext exampleRequest []))
   \<and> GetKey (AuthRequired ''your-secret-key-min-32-characters-long'' (\<lambda>c. c)
         (newContext exampleRequest [])) ''user_id'' = Some (AUint64 0)"
  using validateJWT_accepts_unsigned [of "''your-secret-key-min-32-characters-long''"]
  by simp

text \<open>
  At the router: the example request is a \<open>PUT /api/v1/auth/me\<close>, a route that requires
  a bearer token; its token \<open>a.b.c\<close> carries no signature. The request is forwarded: one
  upstream request is made and the upstream's 200 is relayed.
\<close>

lemma unsigned_token_forwarded:
  "findRoute (Method exampleRequest) (Path (ReqURL exampleRequest)) = Some (BearerRequired, Identity)
   \<and> Header_Get (Header exampleRequest) ''Authorization'' = ''Bearer a.b.c''
   \<and> length (Upstream (serve (exampleEnv upstreamHeaders) [] exampleRequest)) = 1
   \<and> Status (Writer (serve (exampleEnv upstreamHeaders) [] exampleRequest)) = 200"
proof (intro conjI)
  show "findRoute (Method exampleRequest) (Path (ReqURL exampleRequest)) = Some (BearerRequired, Identity)"
    by (simp add: exampleRequest_def example_findRoute)
  show "Header_Get (Header exampleRequest) ''Authorization'' = ''Bearer a.b.c''"
    by (simp add: exampleRequest_def Header_Get_def Header_Values_def)
  show "length (Upstream (serve (exampleEnv upstreamHeaders) [] exampleRequest)) = 1"
    by (simp add: example_serve)
  show "Status (Writer (serve (exampleEnv upstreamHeaders) [] exampleRequest)) = 200"
    by (simp add: example_serve)
qed

section \<open>Rate limits\<close>


lemma clientRequest_ip [simp]: "ClientIP (clientRequest ip) = ip"
  by (simp add: clientRequest_def)

lemma passed_simps [simp]:
  "passed [] = 0"
  "passed (b # bs) = (if b then Suc (passed bs) else passed bs)"
  by (simp_all add: passed_def)


subsection \<open>One request through the in-memory limiter\<close>






subsection \<open>One request through the limiter on the shared store\<close>









section \<open>Requests without a usable bearer token\<close>


lemma finish_Writer: "\<not> Panicked c \<Longrightarrow> Writer (finish c) = Writer c"
  by (simp add: finish_def Recovery_def Logger_def Let_def)

lemma findRoute_method:
  assumes "findRoute m path = Some (pol, tgt)"
  shows "m \<noteq> ''OPTIONS''"
proof -
  from assms obtain rm pattern where
    "find (\<lambda>(rm, pattern, pol, tgt). rm = m \<and> matchPath pattern path) routes = Some (rm, pattern, pol, tgt)"
    by (auto simp: findRoute_def split: option.splits)
  from find_SomeD [OF this] have "(m, pattern, pol, tgt) \<in> set routes" by auto
  then show ?thesis unfolding routes_def by auto
qed

lemma findRoute_not_health:
  assumes "findRoute m path = Some (pol, tgt)"
  shows "path \<noteq> ''/health''"
  using findRoute_prefix [OF assms] by (auto simp: prefix_def)

text \<open>The limiter passes the request on as it came, or answers 429.\<close>

lemma rateLimiter_request:
  "(\<exists>c'. rateLimiter env next c = next c' \<and> Request c' = Request c \<and> Upstream c' = Upstream c
          \<and> Panicked c' = Panicked c)
   \<or> (Upstream (rateLimiter env next c) = Upstream c
       \<and> Panicked (rateLimiter env next c) = Panicked c
       \<and> Status (Writer (rateLimiter env next c)) = 429
       \<and> RespBody (Writer (rateLimiter env next c)) = JSON rateLimitExceeded)"
proof (cases "RedisExec env")
  case None
  show ?thesis
  proof (cases "map_of (Clients c) (ClientIP (Request c))")
    case noEntry: None
    with None show ?thesis
      by (intro disjI1) (auto simp: rateLimiter_def RateLimiterMemory_def Let_def)
  next
    case (Some cl)
    obtain count lastSeen where cl: "cl = (count, lastSeen)" by (cases cl)
    define cl' where "cl' = (if Now env - lastSeen > Minute then (1, Now env)
                             else (wrap64 (count + 1), lastSeen))"
    show ?thesis
    proof (cases "fst cl' > Requests (RateLimit (Cfg env))")
      case True
      with None Some cl show ?thesis
        by (intro disjI2)
           (simp add: rateLimiter_def RateLimiterMemory_def Let_def respond_defs
              bodyAllowedForStatus_def cl'_def)
    next
      case False
      with None Some cl show ?thesis
        by (intro disjI1) (auto simp: rateLimiter_def RateLimiterMemory_def Let_def cl'_def)
    qed
  qed
next
  case (Some exec)
  show ?thesis
  proof (cases "exec (''rate_limit:'' @ ClientIP (Request c)) (Window (RateLimit (Cfg env)))")
    case (Inl e)
    with Some show ?thesis
      by (intro disjI1) (auto simp: rateLimiter_def RateLimiterRedis_def)
  next
    case (Inr n)
    show ?thesis
    proof (cases "n > Requests (RateLimit (Cfg env))")
      case True
      with Some Inr show ?thesis
        by (intro disjI2)
           (simp add: rateLimiter_def RateLimiterRedis_def Let_def respond_defs
              bodyAllowedForStatus_def)
    next
      case False
      with Some Inr show ?thesis
        by (intro disjI1) (auto simp: rateLimiter_def RateLimiterRedis_def Let_def)
    qed
  qed
qed

text \<open>
  The authenticator answers a header that is not in bearer format with 401, and an
  absent one with the message that it is required; the next handler is not reached.
\<close>

lemma AuthRequired_rejects:
  assumes "\<not> bearerFormat (GetHeader c ''Authorization'')"
  shows "Upstream (AuthRequired secret next c) = Upstream c"
    and "Panicked (AuthRequired secret next c) = Panicked c"
    and "Status (Writer (AuthRequired secret next c)) = 401"
    and "GetHeader c ''Authorization'' = [] \<Longrightarrow>
         RespBody (Writer (AuthRequired secret next c)) =
           JSON [(''error'', ''unauthorized''), (''message'', ''Authorization header is required'')]"
  using assms
  by (auto simp: AuthRequired_def bearerFormat_def Let_def validateJWT_def respond_defs
        unauthorized_def bodyAllowedForStatus_def)


lemma serve_bearer_route:
  assumes "findRoute (Method req) (Path (ReqURL req)) = Some (BearerRequired, tgt)"
  shows "serve env clients req =
           finish (rateLimiter env (AuthRequired (Secret (JWT (Cfg env))) (forward env tgt))
                     (afterSecurity env (newContext req clients)))"
proof -
  from findRoute_method [OF assms] have m: "Method (Request (newContext req clients)) \<noteq> ''OPTIONS''"
    by simp
  from findRoute_not_health [OF assms] assms
  have "dispatch env (afterSecurity env (newContext req clients))
          = routeChain env BearerRequired tgt (afterSecurity env (newContext req clients))"
    by (simp add: dispatch_def)
  then show ?thesis
    by (simp add: serve_def globalMiddleware_next [OF m] routeChain_def authenticate_def)
qed

text \<open>
  C2 (amended). On a route that requires a bearer token, a request whose
  \<open>Authorization\<close> header is absent, or is not \<open>bearer\<close>, a space and a token of three
  dot-separated segments, causes no upstream request, and it is answered 401 unless the
  rate limiter, which runs first, has answered 429; for an absent header the 401 has the
  body \<open>{"error":"unauthorized","message":"Authorization header is required"}\<close>.
\<close>

theorem unauthorized_not_forwarded:
  assumes "findRoute (Method req) (Path (ReqURL req)) = Some (BearerRequired, tgt)"
    and "\<not> bearerFormat (Header_Get (Header req) ''Authorization'')"
  shows "Upstream (serve env clients req) = []
     \<and> (Status (Writer (serve env clients req)) = 429
         \<or> Status (Writer (serve env clients req)) = 401
            \<and> (Header_Get (Header req) ''Authorization'' = [] \<longrightarrow>
                 RespBody (Writer (serve env clients req)) =
                   JSON [(''error'', ''unauthorized''),
                         (''message'', ''Authorization header is required'')]))"
proof -
  let ?c0 = "afterSecurity env (newContext req clients)"
  let ?auth = "AuthRequired (Secret (JWT (Cfg env))) (forward env tgt)"
  note s = serve_bearer_route [OF assms(1), of env clients]
  from rateLimiter_request [of env ?auth ?c0] show ?thesis
  proof (elim disjE exE conjE)
    fix c'
    assume p: "rateLimiter env ?auth ?c0 = ?auth c'" "Request c' = Request ?c0"
      "Upstream c' = Upstream ?c0" "Panicked c' = Panicked ?c0"
    then have h: "GetHeader c' ''Authorization'' = Header_Get (Header req) ''Authorization''"
      by (simp add: GetHeader_def)
    with assms(2) have nb: "\<not> bearerFormat (GetHeader c' ''Authorization'')" by simp
    note r = AuthRequired_rejects [OF nb, of "Secret (JWT (Cfg env))" "forward env tgt"]
    from r(2) p have np: "\<not> Panicked (?auth c')" by simp
    from r(1) p have "Upstream (serve env clients req) = []" by (simp add: s)
    moreover from r(3) np p have "Status (Writer (serve env clients req)) = 401"
      by (simp add: s finish_Writer)
    moreover from r(4) h np p
    have "Header_Get (Header req) ''Authorization'' = [] \<longrightarrow>
            RespBody (Writer (serve env clients req)) =
              JSON [(''error'', ''unauthorized''), (''message'', ''Authorization header is required'')]"
      by (simp add: s finish_Writer)
    ultimately show ?thesis by simp
  next
    assume l: "Upstream (rateLimiter env ?auth ?c0) = Upstream ?c0"
      "Panicked (rateLimiter env ?auth ?c0) = Panicked ?c0"
      "Status (Writer (rateLimiter env ?auth ?c0)) = 429"
    then have "\<not> Panicked (rateLimiter env ?auth ?c0)" by simp
    with l show ?thesis by (simp add: s finish_Writer)
  qed
qed

lemma example_unauthorized:
  "Upstream (serve (exampleEnv quietHeaders) [] (exampleRequest\<lparr>Header := []\<rparr>)) = []
   \<and> Status (Writer (serve (exampleEnv quietHeaders) [] (exampleRequest\<lparr>Header := []\<rparr>))) = 401"
  by code_simp

lemma example_limited:
  "Status (Writer (serve (exampleEnv quietHeaders) exhausted (exampleRequest\<lparr>Header := []\<rparr>))) = 429"
  by code_simp

theorem unauthorized_not_forwarded_witness:
  "\<not> bearerFormat []
   \<and> Upstream (serve (exampleEnv quietHeaders) [] (exampleRequest\<lparr>Header := []\<rparr>)) = []
   \<and> Status (Writer (serve (exampleEnv quietHeaders) [] (exampleRequest\<lparr>Header := []\<rparr>))) = 401
   \<and> RespBody (Writer (serve (exampleEnv quietHeaders) [] (exampleRequest\<lparr>Header := []\<rparr>))) =
        JSON [(''error'', ''unauthorized''), (''message'', ''Authorization header is required'')]"
proof -
  let ?req = "exampleRequest\<lparr>Header := []\<rparr>"
  have r: "findRoute (Method ?req) (Path (ReqURL ?req)) = Some (BearerRequired, Identity)"
    by (simp add: exampleRequest_def example_findRoute)
  have a: "Header_Get (Header ?req) ''Authorization'' = []"
    by (simp add: Header_Get_def Header_Values_def)
  have nb: "\<not> bearerFormat []" by (simp add: bearerFormat_def)
  from nb a have nb': "\<not> bearerFormat (Header_Get (Header ?req) ''Authorization'')" by simp
  from unauthorized_not_forwarded [OF r nb', of "exampleEnv quietHeaders" "[]"] a example_unauthorized
  have "RespBody (Writer (serve (exampleEnv quietHeaders) [] ?req)) =
        JSON [(''error'', ''unauthorized''), (''message'', ''Authorization header is required'')]"
    by simp
  with nb example_unauthorized show ?thesis by simp
qed

text \<open>
  C2 as stated fails when the rate limiter answers first. The example client has used
  up its limit; its request to \<open>/api/v1/auth/me\<close> without an \<open>Authorization\<close> header is
  answered 429, not 401.
\<close>

theorem limited_before_authenticated_counterexample:
  "findRoute ''PUT'' ''/api/v1/auth/me'' = Some (BearerRequired, Identity)
   \<and> Header_Get (Header (exampleRequest\<lparr>Header := []\<rparr>)) ''Authorization'' = []
   \<and> Status (Writer (serve (exampleEnv quietHeaders) exhausted (exampleRequest\<lparr>Header := []\<rparr>))) = 429"
  by (simp add: example_findRoute example_limited Header_Get_def Header_Values_def)

end
